theory Spec2Isabelle
  imports Main
begin

section \<open>Values read from JSON\<close>

text \<open>
  What \<^verbatim>\<open>JSON.parse\<close> and \<^verbatim>\<open>res.json()\<close> deliver. The tools cast it to an interface
  without checking, so every shape has to be followed. A number is tested for zero only and
  is modelled by an integer. A \<open>jsval\<close> is a value or \<^verbatim>\<open>undefined\<close> (\<open>None\<close>).
\<close>

datatype json =
  JNull | JBool bool | JNum int | JStr string | JArr "json list" | JObj "(string \<times> json) list"

type_synonym jsval = "json option"

section \<open>Shared types (src/types/index.ts)\<close>

text \<open>
  \<^verbatim>\<open>HealthStatus = 'healthy' | 'degraded' | 'down' | 'unknown'\<close>.
\<close>

datatype HealthStatus = Healthy | Degraded | Down | Unknown

text \<open>
  \<^verbatim>\<open>ToolResult<T>\<close>: the envelope every tool returns. The optional \<^verbatim>\<open>error?\<close> field is
  an option: \<open>None\<close> is the absent field.
\<close>

record 'a ToolResult =
  tool :: string
  success :: bool
  timestamp :: string
  data :: 'a
  error :: "string option"

text \<open>
  The payloads. Field names are unique in a theory, so \<^verbatim>\<open>status\<close> of \<^verbatim>\<open>RailwayData\<close> and
  of \<^verbatim>\<open>EmailData\<close> and \<^verbatim>\<open>GitHubData\<close>, and \<^verbatim>\<open>id\<close> and \<^verbatim>\<open>url\<close> of \<^verbatim>\<open>SentryIssue\<close>, carry a
  prefix.
  A JavaScript number that is a count or a number of milliseconds is an \<open>int\<close>. The two
  deployment fields of \<^verbatim>\<open>RailwayData\<close> are declared \<^verbatim>\<open>string | null\<close> and filled from the
  response without a check: they hold whatever value the response has there.
\<close>

record UptimeData =
  url :: string
  status :: HealthStatus
  responseMs :: "int option"
  statusCode :: "int option"

record SilentShop =
  shopId :: string
  shopName :: string
  lastActivityAt :: "string option"
  daysSilent :: int

record SupabaseData =
  connectionStatus :: HealthStatus
  totalShops :: int
  activeShopsLast24h :: int
  ticketsCreatedLast24h :: int
  aiSessionsLast24h :: int
  silentShops :: "SilentShop list"

record SentryIssue =
  issue_id :: string
  title :: string
  level :: string
  count :: int
  firstSeen :: string
  lastSeen :: string
  issue_url :: string

record SentryData =
  newIssueCount :: int
  unresolvedCount :: int
  recentIssues :: "SentryIssue list"

record RailwayData =
  railway_status :: HealthStatus
  latestDeploymentStatus :: jsval
  latestDeploymentAt :: jsval

record EmailData =
  email_status :: HealthStatus
  unreadCount :: int
  lastCheckAt :: string

record GitHubData =
  github_status :: HealthStatus

datatype Severity = Critical | Warning | Info

record Alert =
  severity :: Severity
  alert_tool :: string
  message :: string
  details :: "string option"
  actionUrl :: "string option"

section \<open>Faults and settled promises\<close>

text \<open>
  A value caught by \<^verbatim>\<open>catch (err)\<close>: an \<^verbatim>\<open>Error\<close> object with its message, or anything
  else (for which \<^verbatim>\<open>err instanceof Error\<close> is false and \<^verbatim>\<open>err?.message\<close> is undefined).
\<close>

datatype thrown = ErrorObj string | NonError

text \<open>
  The outcome of an awaited promise, and an entry of \<^verbatim>\<open>Promise.allSettled\<close>:
  \<^verbatim>\<open>{status: 'fulfilled', value}\<close> or \<^verbatim>\<open>{status: 'rejected', reason}\<close>.
\<close>

datatype 'a settled = Fulfilled 'a | Rejected thrown

text \<open>Statements in sequence inside a \<^verbatim>\<open>try\<close>: the first throw ends the block.\<close>

definition tryBind :: "thrown + 'a \<Rightarrow> ('a \<Rightarrow> thrown + 'b) \<Rightarrow> thrown + 'b" where
  "tryBind m f = (case m of Inl err \<Rightarrow> Inl err | Inr x \<Rightarrow> f x)"

fun tryMap :: "('a \<Rightarrow> thrown + 'b) \<Rightarrow> 'a list \<Rightarrow> thrown + 'b list" where
  "tryMap f [] = Inr []"
| "tryMap f (x # xs) =
     (case f x of
        Inl err \<Rightarrow> Inl err
      | Inr y \<Rightarrow> (case tryMap f xs of Inl err \<Rightarrow> Inl err | Inr ys \<Rightarrow> Inr (y # ys)))"

section \<open>Reading JavaScript values\<close>

text \<open>\<^verbatim>\<open>null\<close> and \<^verbatim>\<open>undefined\<close>, the values an optional chain stops at.\<close>

fun nullish :: "jsval \<Rightarrow> bool" where
  "nullish None = True"
| "nullish (Some JNull) = True"
| "nullish (Some v) = False"

text \<open>Truthiness, as \<^verbatim>\<open>if (x)\<close>, \<^verbatim>\<open>!x\<close> and \<^verbatim>\<open>x || y\<close> test it.\<close>

fun truthy :: "jsval \<Rightarrow> bool" where
  "truthy None = False"
| "truthy (Some JNull) = False"
| "truthy (Some (JBool b)) = b"
| "truthy (Some (JNum n)) = (n \<noteq> 0)"
| "truthy (Some (JStr s)) = (s \<noteq> [])"
| "truthy (Some (JArr xs)) = True"
| "truthy (Some (JObj kvs)) = True"

text \<open>
  \<^verbatim>\<open>v.k\<close> for a value that is not nullish and a key that no prototype defines (all keys
  the tools read by name are such): the member of an object, the last one when the text
  repeats the key, and \<^verbatim>\<open>undefined\<close> on every other value.
\<close>

fun propOf :: "jsval \<Rightarrow> string \<Rightarrow> jsval" where
  "propOf (Some (JObj kvs)) k = map_of (rev kvs) k"
| "propOf v k = None"

text \<open>\<^verbatim>\<open>v[0]\<close> for a value that is not nullish.\<close>

fun index0 :: "jsval \<Rightarrow> jsval" where
  "index0 (Some (JArr xs)) = (case xs of [] \<Rightarrow> None | x # _ \<Rightarrow> Some x)"
| "index0 (Some (JStr s)) = (case s of [] \<Rightarrow> None | c # _ \<Rightarrow> Some (JStr [c]))"
| "index0 (Some (JObj kvs)) = map_of (rev kvs) ''0''"
| "index0 v = None"

text \<open>
  The \<^verbatim>\<open>TypeError\<close> of reading a member of \<^verbatim>\<open>null\<close> or \<^verbatim>\<open>undefined\<close>, with the message Node
  gives it, for instance \<^verbatim>\<open>Cannot read properties of null (reading 'errors')\<close>.
\<close>

definition cannotRead :: "jsval \<Rightarrow> string \<Rightarrow> thrown" where
  "cannotRead v k =
     ErrorObj (''Cannot read properties of '' @ (if v = None then ''undefined'' else ''null'')
               @ '' (reading '' @ [CHR 0x27] @ k @ [CHR 0x27] @ '')'')"

text \<open>\<^verbatim>\<open>v.k\<close> for any value: it throws on a nullish one.\<close>

definition readProp :: "jsval \<Rightarrow> string \<Rightarrow> thrown + jsval" where
  "readProp v k = (if nullish v then Inl (cannotRead v k) else Inr (propOf v k))"

text \<open>\<^verbatim>\<open>v[0]\<close> for any value.\<close>

definition readIndex0 :: "jsval \<Rightarrow> thrown + jsval" where
  "readIndex0 v = (if nullish v then Inl (cannotRead v ''0'') else Inr (index0 v))"

text \<open>
  What \<^verbatim>\<open>getResult\<close> of the scheduler returns: the tool's envelope, or for a rejected promise
  the object \<^verbatim>\<open>{success: false, error: ...}\<close>, which has no \<^verbatim>\<open>tool\<close>, \<^verbatim>\<open>timestamp\<close> and
  \<^verbatim>\<open>data\<close>. Every field but \<^verbatim>\<open>success\<close> is therefore optional in the briefing's slots.
\<close>

record 'a SlotResult =
  slot_tool :: "string option"
  slot_success :: bool
  slot_timestamp :: "string option"
  slot_data :: "'a option"
  slot_error :: "string option"

record MorningBriefing =
  briefing_timestamp :: string
  overallStatus :: HealthStatus
  uptime :: "UptimeData list SlotResult"
  supabase :: "SupabaseData SlotResult"
  sentry :: "SentryData SlotResult"
  railway :: "RailwayData SlotResult"
  email :: "EmailData SlotResult"
  alerts :: "Alert list"

section \<open>Strings\<close>

text \<open>\<^verbatim>\<open>Array.prototype.join\<close> on strings.\<close>

fun join :: "string \<Rightarrow> string list \<Rightarrow> string" where
  "join sep [] = []"
| "join sep [x] = x"
| "join sep (x # y # ys) = x @ sep @ join sep (y # ys)"

text \<open>A number inside a template literal: its decimal digits.\<close>

definition digit :: "nat \<Rightarrow> char" where
  "digit d = ''0123456789'' ! d"

fun show_nat :: "nat \<Rightarrow> string" where
  "show_nat n = (if n < 10 then [digit n] else show_nat (n div 10) @ [digit (n mod 10)])"

declare show_nat.simps [simp del]

definition show_int :: "int \<Rightarrow> string" where
  "show_int i = (if i < 0 then CHR ''-'' # show_nat (nat (- i)) else show_nat (nat i))"

text \<open>
  \<^verbatim>\<open>process.env.X\<close> inside a concatenation or a template literal: an unset variable
  prints as \<^verbatim>\<open>undefined\<close>.
\<close>

definition env_str :: "string option \<Rightarrow> string" where
  "env_str v = (case v of None \<Rightarrow> ''undefined'' | Some s \<Rightarrow> s)"

section \<open>The monitoring tools\<close>

text \<open>
  Every tool is a function of what its network calls deliver: a \<^verbatim>\<open>fetch\<close> either rejects
  (a network fault, or the abort of \<^verbatim>\<open>AbortSignal.timeout\<close>) or resolves to a response.
  The clock (\<^verbatim>\<open>new Date().toISOString()\<close>, \<^verbatim>\<open>Date.now()\<close>) is an argument.
\<close>

record response =
  res_ok :: bool
  res_status :: int
  res_statusText :: string
  res_text :: "thrown + string"

type_synonym fetch_result = "thrown + response"

text \<open>\<^verbatim>\<open>err instanceof Error ? err.message : 'Unknown error'\<close>, the reason every tool reports.\<close>

definition errMessage :: "thrown \<Rightarrow> string" where
  "errMessage err = (case err of ErrorObj m \<Rightarrow> m | NonError \<Rightarrow> ''Unknown error'')"

text \<open>\<^verbatim>\<open>Promise.all\<close>: the values when every promise fulfils, else a rejection.\<close>

fun Promise_all :: "(thrown + 'a) list \<Rightarrow> thrown + 'a list" where
  "Promise_all [] = Inr []"
| "Promise_all (Inl err # ps) = Inl err"
| "Promise_all (Inr v # ps) = (case Promise_all ps of Inl err \<Rightarrow> Inl err | Inr vs \<Rightarrow> Inr (v # vs))"

text \<open>What a tool does to the outside, in order: the requests it sends and the pauses it takes.\<close>

datatype effect = FetchCall string nat | Sleep nat

subsection \<open>Uptime (tools/uptime.ts, the revision with \<^verbatim>\<open>pingEndpoint\<close>)\<close>

text \<open>
  One attempt is the outcome of the \<^verbatim>\<open>fetch\<close> and the milliseconds \<^verbatim>\<open>Date.now() - start\<close>
  it took; \<^verbatim>\<open>start\<close> is read inside \<^verbatim>\<open>pingEndpoint\<close>, so each attempt has its own.
\<close>

type_synonym attempt = "fetch_result \<times> int"

definition pingEndpoint :: "string \<Rightarrow> attempt \<Rightarrow> (thrown + UptimeData) \<times> effect list" where
  "pingEndpoint u a =
     ((case fst a of
         Inl err \<Rightarrow> Inl err
       | Inr res \<Rightarrow>
           Inr \<lparr>url = u, status = (if res_ok res then Healthy else Degraded),
                responseMs = Some (snd a), statusCode = Some (res_status res)\<rparr>),
      [FetchCall u 20000])"

text \<open>
  \<^verbatim>\<open>checkEndpoint\<close>: the second attempt is made only when the first one threw, after a
  pause of 5000 ms; when it throws too the endpoint is \<^verbatim>\<open>down\<close>.
\<close>

definition checkEndpoint :: "string \<Rightarrow> attempt \<Rightarrow> attempt \<Rightarrow> UptimeData \<times> effect list" where
  "checkEndpoint u first retry =
     (case pingEndpoint u first of
        (Inr d, fx) \<Rightarrow> (d, fx)
      | (Inl err, fx) \<Rightarrow>
          (case pingEndpoint u retry of
             (Inr d, fx') \<Rightarrow> (d, fx @ [Sleep 5000] @ fx')
           | (Inl retryErr, fx') \<Rightarrow>
               (\<lparr>url = u, status = Down, responseMs = None, statusCode = None\<rparr>,
                fx @ [Sleep 5000] @ fx')))"

text \<open>
  \<^verbatim>\<open>runUptimeCheck\<close> over the configured endpoints, each given with its URL and what its two
  possible attempts deliver.
\<close>

definition runUptimeCheck ::
  "string \<Rightarrow> (string \<times> attempt \<times> attempt) list \<Rightarrow> UptimeData list ToolResult" where
  "runUptimeCheck now endpoints =
     (case Promise_all (map (\<lambda>(u, first, retry). Inr (fst (checkEndpoint u first retry))) endpoints) of
        Inr results \<Rightarrow>
          \<lparr>tool = ''uptime'', success = True, timestamp = now, data = results, error = None\<rparr>
      | Inl err \<Rightarrow>
          \<lparr>tool = ''uptime'', success = False, timestamp = now, data = [],
           error = Some (errMessage err)\<rparr>)"

subsection \<open>Uptime, the earlier revision without a retry (second copy of tools/uptime.ts)\<close>

definition checkEndpoint_v1 :: "string \<Rightarrow> attempt \<Rightarrow> UptimeData \<times> effect list" where
  "checkEndpoint_v1 u a =
     ((case fst a of
         Inr res \<Rightarrow>
           \<lparr>url = u, status = (if res_ok res then Healthy else Degraded),
            responseMs = Some (snd a), statusCode = Some (res_status res)\<rparr>
       | Inl err \<Rightarrow> \<lparr>url = u, status = Down, responseMs = None, statusCode = None\<rparr>),
      [FetchCall u 10000])"

definition runUptimeCheck_v1 :: "string \<Rightarrow> (string \<times> attempt) list \<Rightarrow> UptimeData list ToolResult" where
  "runUptimeCheck_v1 now endpoints =
     (case Promise_all (map (\<lambda>(u, a). Inr (fst (checkEndpoint_v1 u a))) endpoints) of
        Inr results \<Rightarrow>
          \<lparr>tool = ''uptime'', success = True, timestamp = now, data = results, error = None\<rparr>
      | Inl err \<Rightarrow>
          \<lparr>tool = ''uptime'', success = False, timestamp = now, data = [],
           error = Some (errMessage err)\<rparr>)"

subsection \<open>Railway (src/tools/railway.ts, the revision with \<^verbatim>\<open>resolveStatus\<close>)\<close>

text \<open>
  \<^verbatim>\<open>resolveStatus(deployment.status)\<close>: the comparisons are \<^verbatim>\<open>===\<close> against strings, so a
  value that is no string, or \<^verbatim>\<open>undefined\<close>, is \<^verbatim>\<open>degraded\<close>.
\<close>

definition resolveStatus :: "jsval \<Rightarrow> HealthStatus" where
  "resolveStatus deploymentStatus =
     (if deploymentStatus = Some (JStr ''SUCCESS'') \<or> deploymentStatus = Some (JStr ''ACTIVE'')
      then Healthy
      else if deploymentStatus = Some (JStr ''FAILED'')
              \<or> deploymentStatus = Some (JStr ''CRASHED'') then Down
      else Degraded)"

text \<open>
  \<^verbatim>\<open>data.data?.service?.deployments?.edges[0]?.node\<close>, for \<^verbatim>\<open>data\<close> that is not \<^verbatim>\<open>null\<close>.
  Each \<^verbatim>\<open>?.\<close> ends the chain with \<^verbatim>\<open>undefined\<close> when the value before it is nullish; the
  index \<^verbatim>\<open>[0]\<close> has no such guard and throws when \<^verbatim>\<open>edges\<close> is missing or \<^verbatim>\<open>null\<close>.
\<close>

definition latestDeployment :: "json \<Rightarrow> thrown + jsval" where
  "latestDeployment d =
     (let d1 = propOf (Some d) ''data'' in
      if nullish d1 then Inr None
      else
        let sv = propOf d1 ''service'' in
        if nullish sv then Inr None
        else
          let dp = propOf sv ''deployments'' in
          if nullish dp then Inr None
          else
            (case readIndex0 (propOf dp ''edges'') of
               Inl err \<Rightarrow> Inl err
             | Inr e \<Rightarrow> if nullish e then Inr None else Inr (propOf e ''node'')))"

definition unknownRailway :: RailwayData where
  "unknownRailway =
     \<lparr>railway_status = Unknown, latestDeploymentStatus = Some JNull,
      latestDeploymentAt = Some JNull\<rparr>"

text \<open>
  \<^verbatim>\<open>fetchRailwayStatus\<close> has a \<^verbatim>\<open>try\<close> around \<^verbatim>\<open>JSON.parse\<close> only. The rejections of
  \<^verbatim>\<open>fetch\<close> and \<^verbatim>\<open>res.text()\<close> leave the function, and so do the two \<^verbatim>\<open>TypeError\<close>s of a
  body that parses but has not the shape of the interface: \<^verbatim>\<open>data.errors\<close> when the body is
  \<^verbatim>\<open>null\<close>, and \<^verbatim>\<open>edges[0]\<close> when there are deployments without edges. \<^verbatim>\<open>JSON.parse\<close> is
  the argument \<open>parse\<close>; \<open>None\<close> is its \<^verbatim>\<open>SyntaxError\<close>.
\<close>

definition fetchRailwayStatus ::
  "(string \<Rightarrow> json option) \<Rightarrow> fetch_result \<Rightarrow> thrown + RailwayData" where
  "fetchRailwayStatus parse f =
     (case f of
        Inl err \<Rightarrow> Inl err
      | Inr res \<Rightarrow>
          (case res_text res of
             Inl err \<Rightarrow> Inl err
           | Inr body \<Rightarrow>
               if \<not> res_ok res then Inr unknownRailway
               else
                 (case parse body of
                    None \<Rightarrow> Inr unknownRailway
                  | Some d \<Rightarrow>
                      (case readProp (Some d) ''errors'' of
                         Inl err \<Rightarrow> Inl err
                       | Inr errs \<Rightarrow>
                           if truthy errs then Inr unknownRailway
                           else
                             (case latestDeployment d of
                                Inl err \<Rightarrow> Inl err
                              | Inr deployment \<Rightarrow>
                                  if \<not> truthy deployment then Inr unknownRailway
                                  else
                                    Inr \<lparr>railway_status =
                                           resolveStatus (propOf deployment ''status''),
                                         latestDeploymentStatus = propOf deployment ''status'',
                                         latestDeploymentAt =
                                           propOf deployment ''createdAt''\<rparr>)))))"

definition runRailwayCheck ::
  "string \<Rightarrow> (string \<Rightarrow> json option) \<Rightarrow> fetch_result \<Rightarrow> RailwayData ToolResult" where
  "runRailwayCheck now parse f =
     (case fetchRailwayStatus parse f of
        Inr railwayStatus \<Rightarrow>
          \<lparr>tool = ''railway'', success = True, timestamp = now,
           data = \<lparr>railway_status = railway_status railwayStatus,
                   latestDeploymentStatus = latestDeploymentStatus railwayStatus,
                   latestDeploymentAt = latestDeploymentAt railwayStatus\<rparr>,
           error = None\<rparr>
      | Inl err \<Rightarrow>
          \<lparr>tool = ''railway'', success = False, timestamp = now, data = unknownRailway,
           error = Some (errMessage err)\<rparr>)"

subsection \<open>Railway, the earlier revision (first copy in src/tools/railway.ts)\<close>

text \<open>
  Here \<^verbatim>\<open>fetchRailwayStatus\<close> wraps everything in its own \<^verbatim>\<open>try\<close> and answers \<^verbatim>\<open>down\<close> from
  the \<^verbatim>\<open>catch\<close>, whatever was thrown; the response has the deployments directly under
  \<^verbatim>\<open>data\<close> and is read with \<^verbatim>\<open>res.json()\<close>, whose outcome is the second argument. The
  block is modelled by its result, \<open>None\<close> when it throws.
\<close>

definition latestDeployment_v1 :: "json \<Rightarrow> jsval option" where
  "latestDeployment_v1 d =
     (let d1 = propOf (Some d) ''data'' in
      if nullish d1 then Some None
      else
        let dp = propOf d1 ''deployments'' in
        if nullish dp then Some None
        else
          (case readIndex0 (propOf dp ''edges'') of
             Inl err \<Rightarrow> None
           | Inr e \<Rightarrow> if nullish e then Some None else Some (propOf e ''node'')))"

text \<open>\<^verbatim>\<open>deployment?.k\<close> and \<^verbatim>\<open>x || null\<close>.\<close>

definition optProp :: "jsval \<Rightarrow> string \<Rightarrow> jsval" where
  "optProp v k = (if nullish v then None else propOf v k)"

definition orNull :: "jsval \<Rightarrow> jsval" where
  "orNull v = (if truthy v then v else Some JNull)"

definition fetchRailwayStatus_v1 :: "fetch_result \<Rightarrow> (thrown + json) \<Rightarrow> RailwayData" where
  "fetchRailwayStatus_v1 f json =
     (let attempt =
        (case f of
           Inl err \<Rightarrow> None
         | Inr res \<Rightarrow>
             if \<not> res_ok res then None
             else
               (case json of
                  Inl err \<Rightarrow> None
                | Inr d \<Rightarrow>
                    if nullish (Some d) then None
                    else if truthy (propOf (Some d) ''errors'') then None
                    else
                      (case latestDeployment_v1 d of
                         None \<Rightarrow> None
                       | Some deployment \<Rightarrow>
                           Some \<lparr>railway_status =
                                   (if optProp deployment ''status'' = Some (JStr ''SUCCESS'')
                                    then Healthy else Degraded),
                                 latestDeploymentStatus = orNull (optProp deployment ''status''),
                                 latestDeploymentAt =
                                   orNull (optProp deployment ''createdAt'')\<rparr>)))
      in case attempt of
           Some st \<Rightarrow> st
         | None \<Rightarrow>
             \<lparr>railway_status = Down, latestDeploymentStatus = Some JNull,
              latestDeploymentAt = Some JNull\<rparr>)"

text \<open>
  With that, nothing inside the \<^verbatim>\<open>try\<close> of the earlier \<^verbatim>\<open>runRailwayCheck\<close> can throw: it
  always takes the first \<^verbatim>\<open>return\<close>.
\<close>

definition runRailwayCheck_v1 ::
  "string \<Rightarrow> fetch_result \<Rightarrow> (thrown + json) \<Rightarrow> RailwayData ToolResult" where
  "runRailwayCheck_v1 now f json =
     (let railwayStatus = fetchRailwayStatus_v1 f json
      in \<lparr>tool = ''railway'', success = True, timestamp = now,
          data = \<lparr>railway_status = railway_status railwayStatus,
                  latestDeploymentStatus = latestDeploymentStatus railwayStatus,
                  latestDeploymentAt = latestDeploymentAt railwayStatus\<rparr>,
          error = None\<rparr>)"

subsection \<open>Supabase (tools/supabase.ts)\<close>

text \<open>
  The six queries of the \<^verbatim>\<open>try\<close> block, awaited in this order. Each either throws or
  delivers its result: the connection check its \<^verbatim>\<open>error\<close> (the message, when there is
  one), the counts a number or \<^verbatim>\<open>null\<close>, the two remote procedures an array (its length, its
  rows) or \<^verbatim>\<open>null\<close>. The two revisions of the file differ in their console output only.
\<close>

record SilentShopRow =
  shop_id :: string
  shop_name :: string
  last_activity_at :: "string option"

record supabase_io =
  connectionCheck :: "thrown + string option"
  totalShopsQuery :: "thrown + int option"
  activeShopsQuery :: "thrown + nat option"
  ticketsQuery :: "thrown + int option"
  aiSessionsQuery :: "thrown + int option"
  silentShopsQuery :: "thrown + SilentShopRow list option"

definition orZero :: "int option \<Rightarrow> int" where
  "orZero c = (case c of None \<Rightarrow> 0 | Some n \<Rightarrow> n)"

text \<open>
  \<^verbatim>\<open>daysSilent\<close>: whole days between the clock \<open>nowMs\<close> and the last activity, or the epoch
  when the row has none (an empty string is falsy as well). \<open>parseDate\<close> is
  \<^verbatim>\<open>new Date(s).getTime()\<close>; \<^verbatim>\<open>Math.floor\<close> of the quotient is \<open>div\<close> on \<open>int\<close>.
\<close>

definition toSilentShop :: "(string \<Rightarrow> int) \<Rightarrow> int \<Rightarrow> SilentShopRow \<Rightarrow> SilentShop" where
  "toSilentShop parseDate nowMs row =
     (let lastActivity =
            (case last_activity_at row of
               None \<Rightarrow> None
             | Some s \<Rightarrow> if s = [] then None else Some (parseDate s))
      in \<lparr>shopId = shop_id row, shopName = shop_name row,
          lastActivityAt = last_activity_at row,
          daysSilent = (case lastActivity of
                          Some t \<Rightarrow> (nowMs - t) div (1000 * 60 * 60 * 24)
                        | None \<Rightarrow> (nowMs - 0) div (1000 * 60 * 60 * 24))\<rparr>)"

definition supabaseQueries :: "(string \<Rightarrow> int) \<Rightarrow> int \<Rightarrow> supabase_io \<Rightarrow> thrown + SupabaseData" where
  "supabaseQueries parseDate nowMs io =
     tryBind (connectionCheck io) (\<lambda>connError.
       case connError of
         Some m \<Rightarrow> Inl (ErrorObj (''Database connection failed: '' @ m))
       | None \<Rightarrow>
     tryBind (totalShopsQuery io) (\<lambda>total.
     tryBind (activeShopsQuery io) (\<lambda>activeShops.
     tryBind (ticketsQuery io) (\<lambda>tickets.
     tryBind (aiSessionsQuery io) (\<lambda>aiSessions.
     tryBind (silentShopsQuery io) (\<lambda>silentShopsData.
       Inr \<lparr>connectionStatus = Healthy,
            totalShops = orZero total,
            activeShopsLast24h = (case activeShops of None \<Rightarrow> 0 | Some n \<Rightarrow> int n),
            ticketsCreatedLast24h = orZero tickets,
            aiSessionsLast24h = orZero aiSessions,
            silentShops = map (toSilentShop parseDate nowMs)
                            (case silentShopsData of None \<Rightarrow> [] | Some rows \<Rightarrow> rows)\<rparr>))))))"

definition runSupabaseCheck ::
  "string \<Rightarrow> (string \<Rightarrow> int) \<Rightarrow> int \<Rightarrow> supabase_io \<Rightarrow> SupabaseData ToolResult" where
  "runSupabaseCheck now parseDate nowMs io =
     (case supabaseQueries parseDate nowMs io of
        Inr d \<Rightarrow>
          \<lparr>tool = ''supabase'', success = True, timestamp = now, data = d, error = None\<rparr>
      | Inl err \<Rightarrow>
          \<lparr>tool = ''supabase'', success = False, timestamp = now,
           data = \<lparr>connectionStatus = Down, totalShops = 0, activeShopsLast24h = 0,
                   ticketsCreatedLast24h = 0, aiSessionsLast24h = 0, silentShops = []\<rparr>,
           error = Some (errMessage err)\<rparr>)"

subsection \<open>Sentry (tools/sentry.ts)\<close>

text \<open>
  \<^verbatim>\<open>fetchSentryIssues\<close> catches every fault of its request (a rejected \<^verbatim>\<open>fetch\<close>, a status
  that is not ok, a body that \<^verbatim>\<open>res.json()\<close> rejects) and answers the empty array;
  otherwise it answers what \<^verbatim>\<open>res.json()\<close> delivered, cast to an array and not checked.
\<close>

definition fetchSentryIssues :: "fetch_result \<Rightarrow> (thrown + json) \<Rightarrow> json" where
  "fetchSentryIssues f json =
     (case f of
        Inl err \<Rightarrow> JArr []
      | Inr res \<Rightarrow>
          if \<not> res_ok res then JArr []
          else (case json of Inl err \<Rightarrow> JArr [] | Inr issues \<Rightarrow> issues))"

text \<open>
  The payload as the tool fills it at run time: \<^verbatim>\<open>SentryData\<close> and \<^verbatim>\<open>SentryIssue\<close> with each
  field holding the value the response has there.
\<close>

record SentryIssue_js =
  js_id :: jsval
  js_title :: jsval
  js_level :: jsval
  js_count :: jsval
  js_firstSeen :: jsval
  js_lastSeen :: jsval
  js_url :: jsval

record SentryData_js =
  js_newIssueCount :: jsval
  js_unresolvedCount :: jsval
  js_recentIssues :: "SentryIssue_js list"

text \<open>
  The object built from one issue. \<^verbatim>\<open>issue.id\<close> is read first and throws when the array
  element is \<^verbatim>\<open>null\<close>.
\<close>

definition toSentryIssue :: "json \<Rightarrow> thrown + SentryIssue_js" where
  "toSentryIssue issue =
     (case readProp (Some issue) ''id'' of
        Inl err \<Rightarrow> Inl err
      | Inr i \<Rightarrow>
          Inr \<lparr>js_id = i, js_title = propOf (Some issue) ''title'',
               js_level = (if truthy (propOf (Some issue) ''level'')
                           then propOf (Some issue) ''level'' else Some (JStr ''error'')),
               js_count = propOf (Some issue) ''count'',
               js_firstSeen = propOf (Some issue) ''firstSeen'',
               js_lastSeen = propOf (Some issue) ''lastSeen'',
               js_url = propOf (Some issue) ''permalink''\<rparr>)"

text \<open>
  \<^verbatim>\<open>unresolvedData.slice(0, 5).map(...)\<close>: an array is mapped; \<^verbatim>\<open>null\<close> has no members; a
  string is sliced to a string, which has no \<^verbatim>\<open>map\<close>; every other value has no callable
  \<^verbatim>\<open>slice\<close>. The messages are Node's.
\<close>

fun recentIssuesOf :: "json \<Rightarrow> thrown + SentryIssue_js list" where
  "recentIssuesOf (JArr xs) = tryMap toSentryIssue (take 5 xs)"
| "recentIssuesOf JNull = Inl (cannotRead (Some JNull) ''slice'')"
| "recentIssuesOf (JStr s) = Inl (ErrorObj ''unresolvedData.slice(...).map is not a function'')"
| "recentIssuesOf v = Inl (ErrorObj ''unresolvedData.slice is not a function'')"

text \<open>\<^verbatim>\<open>x.length\<close>; the length of a string is counted in characters of the model.\<close>

fun lengthOf :: "json \<Rightarrow> thrown + jsval" where
  "lengthOf (JArr xs) = Inr (Some (JNum (int (length xs))))"
| "lengthOf (JStr s) = Inr (Some (JNum (int (length s))))"
| "lengthOf (JObj kvs) = Inr (map_of (rev kvs) ''length'')"
| "lengthOf JNull = Inl (cannotRead (Some JNull) ''length'')"
| "lengthOf v = Inr None"

text \<open>
  \<^verbatim>\<open>runSentryCheck\<close>. The arguments are the two requests (new issues, unresolved issues).
  The recent issues are built first, then the two lengths are read; a throw of any of them
  goes to the \<^verbatim>\<open>catch\<close>.
\<close>

definition runSentryCheck ::
  "string \<Rightarrow> fetch_result \<Rightarrow> (thrown + json) \<Rightarrow> fetch_result \<Rightarrow> (thrown + json)
     \<Rightarrow> SentryData_js ToolResult" where
  "runSentryCheck now f1 json1 f2 json2 =
     (let newIssuesData = fetchSentryIssues f1 json1;
          unresolvedData = fetchSentryIssues f2 json2
      in case tryBind (recentIssuesOf unresolvedData) (\<lambda>recent.
              tryBind (lengthOf newIssuesData) (\<lambda>n.
              tryBind (lengthOf unresolvedData) (\<lambda>u.
                Inr \<lparr>js_newIssueCount = n, js_unresolvedCount = u,
                     js_recentIssues = recent\<rparr>))) of
           Inr d \<Rightarrow>
             \<lparr>tool = ''sentry'', success = True, timestamp = now, data = d, error = None\<rparr>
         | Inl err \<Rightarrow>
             \<lparr>tool = ''sentry'', success = False, timestamp = now,
              data = \<lparr>js_newIssueCount = Some (JNum 0), js_unresolvedCount = Some (JNum 0),
                      js_recentIssues = []\<rparr>,
              error = Some (errMessage err)\<rparr>)"

subsection \<open>Email (tools/email.ts)\<close>

text \<open>
  The placeholder reads three environment variables (unset or empty is falsy) and reports
  failure on both paths; \<open>now\<close> and \<open>now'\<close> are its two readings of the clock. Reading
  the environment and logging do not throw, so the \<^verbatim>\<open>catch\<close> of the source is not reached.
\<close>

definition falsy_env :: "string option \<Rightarrow> bool" where
  "falsy_env v = (case v of None \<Rightarrow> True | Some s \<Rightarrow> s = [])"

definition runEmailCheck ::
  "string \<Rightarrow> string \<Rightarrow> string option \<Rightarrow> string option \<Rightarrow> string option
     \<Rightarrow> EmailData ToolResult" where
  "runEmailCheck now now' imapHost imapUser imapPass =
     (if falsy_env imapHost \<or> falsy_env imapUser \<or> falsy_env imapPass then
        \<lparr>tool = ''email'', success = False, timestamp = now,
         data = \<lparr>email_status = Unknown, unreadCount = 0, lastCheckAt = now'\<rparr>,
         error = Some ''Email configuration not provided. Set IMAP_HOST, IMAP_USER, IMAP_PASS in environment.''\<rparr>
      else
        \<lparr>tool = ''email'', success = False, timestamp = now,
         data = \<lparr>email_status = Unknown, unreadCount = 0, lastCheckAt = now'\<rparr>,
         error = Some ''Email check not yet implemented''\<rparr>)"

subsection \<open>GitHub (tools/github.ts, a scaffold)\<close>

definition runGitHubCheck :: "string \<Rightarrow> GitHubData ToolResult" where
  "runGitHubCheck now =
     \<lparr>tool = ''github'', success = False, timestamp = now,
      data = \<lparr>github_status = Unknown\<rparr>,
      error = Some ''GitHub integration not yet implemented''\<rparr>"

section \<open>The notifier boundary (src/notifications/slack.ts) and the console\<close>

text \<open>
  \<^verbatim>\<open>sendBriefing\<close> and \<^verbatim>\<open>sendAlert\<close> catch every fault of their own and return; the
  scheduler sees a call that completes. A run of the scheduler is modelled by the calls it
  makes to the notifier, in order, and the lines it writes to the console.
\<close>

datatype notifier_call = SendAlert Alert | SendBriefing MorningBriefing

datatype log_event = Log string | LogError string thrown | LogBriefing MorningBriefing

record sched_env =
  SENTRY_ORG :: "string option"
  RAILWAY_PROJECT_ID :: "string option"

section \<open>The quick cycle: \<^verbatim>\<open>runSilentHealthCheck\<close> (scheduler)\<close>

text \<open>
  The two monitors are awaited one after the other inside the \<^verbatim>\<open>try\<close>; a rejection of
  either goes to the \<^verbatim>\<open>catch\<close>, which logs it, and nothing is sent.
\<close>

definition isUptimeDown :: "UptimeData list ToolResult \<Rightarrow> bool" where
  "isUptimeDown uptimeResult =
     (success uptimeResult \<and> list_ex (\<lambda>e. status e = Down) (data uptimeResult))"

definition isRailwayDown :: "RailwayData ToolResult \<Rightarrow> bool" where
  "isRailwayDown railwayResult =
     (success railwayResult \<and> railway_status (data railwayResult) = Down)"

definition downEndpoints :: "UptimeData list \<Rightarrow> string" where
  "downEndpoints d = join '', '' (map url (filter (\<lambda>e. status e = Down) d))"

definition uptimeDownAlert :: "UptimeData list \<Rightarrow> Alert" where
  "uptimeDownAlert d =
     \<lparr>severity = Critical, alert_tool = ''uptime'', message = ''Services are DOWN'',
      details = Some (downEndpoints d), actionUrl = None\<rparr>"

definition railwayDownAlert :: "sched_env \<Rightarrow> Alert" where
  "railwayDownAlert env =
     \<lparr>severity = Critical, alert_tool = ''railway'', message = ''Railway deployment is DOWN'',
      details = None,
      actionUrl = Some (''https://railway.app/project/'' @ env_str (RAILWAY_PROJECT_ID env))\<rparr>"

definition runSilentHealthCheck ::
  "sched_env \<Rightarrow> UptimeData list ToolResult settled \<Rightarrow> RailwayData ToolResult settled
     \<Rightarrow> notifier_call list \<times> log_event list" where
  "runSilentHealthCheck env uptimeAwait railwayAwait =
     (case uptimeAwait of
        Rejected err \<Rightarrow>
          ([], [Log ''[SCHEDULER] Running silent health check...'',
                LogError ''[SCHEDULER] Error in silent health check:'' err])
      | Fulfilled uptimeResult \<Rightarrow>
     (case railwayAwait of
        Rejected err \<Rightarrow>
          ([], [Log ''[SCHEDULER] Running silent health check...'',
                LogError ''[SCHEDULER] Error in silent health check:'' err])
      | Fulfilled railwayResult \<Rightarrow>
          if isUptimeDown uptimeResult \<or> isRailwayDown railwayResult then
            (map SendAlert
               ((if isUptimeDown uptimeResult then [uptimeDownAlert (data uptimeResult)] else [])
                @ (if isRailwayDown railwayResult then [railwayDownAlert env] else [])),
             [Log ''[SCHEDULER] Running silent health check...''])
          else
            ([], [Log ''[SCHEDULER] Running silent health check...'',
                  Log ''[SCHEDULER] Silent health check passed. No alerts needed.''])))"

section \<open>The full cycle: \<^verbatim>\<open>runMorningBriefing\<close> (scheduler)\<close>

text \<open>
  \<^verbatim>\<open>getResult\<close>: a rejected entry becomes \<^verbatim>\<open>{success: false, error: reason?.message || 'Unknown error'}\<close>;
  an empty message is falsy and gives the default too.
\<close>

definition getResult :: "'a ToolResult settled \<Rightarrow> 'a SlotResult" where
  "getResult result =
     (case result of
        Rejected reason \<Rightarrow>
          \<lparr>slot_tool = None, slot_success = False, slot_timestamp = None, slot_data = None,
           slot_error = Some (case reason of
                                ErrorObj m \<Rightarrow> if m = [] then ''Unknown error'' else m
                              | NonError \<Rightarrow> ''Unknown error'')\<rparr>
      | Fulfilled v \<Rightarrow>
          \<lparr>slot_tool = Some (tool v), slot_success = success v,
           slot_timestamp = Some (timestamp v), slot_data = Some (data v),
           slot_error = error v\<rparr>)"

text \<open>
  The three entries of the \<^verbatim>\<open>statuses\<close> array, before the filter:
  \<^verbatim>\<open>data?.every(e => e.status === 'healthy') ? 'healthy' : 'degraded'\<close>,
  \<^verbatim>\<open>data?.connectionStatus || 'unknown'\<close> and \<^verbatim>\<open>data?.status || 'unknown'\<close>.
  None of them reads \<^verbatim>\<open>success\<close>.
\<close>

definition uptimeEntry :: "UptimeData list SlotResult \<Rightarrow> HealthStatus" where
  "uptimeEntry uptimeResult =
     (if (case slot_data uptimeResult of
            None \<Rightarrow> False
          | Some d \<Rightarrow> list_all (\<lambda>e. status e = Healthy) d)
      then Healthy else Degraded)"

definition supabaseEntry :: "SupabaseData SlotResult \<Rightarrow> HealthStatus" where
  "supabaseEntry supabaseResult =
     (case slot_data supabaseResult of None \<Rightarrow> Unknown | Some d \<Rightarrow> connectionStatus d)"

definition railwayEntry :: "RailwayData SlotResult \<Rightarrow> HealthStatus" where
  "railwayEntry railwayResult =
     (case slot_data railwayResult of None \<Rightarrow> Unknown | Some d \<Rightarrow> railway_status d)"

definition statuses ::
  "UptimeData list SlotResult \<Rightarrow> SupabaseData SlotResult \<Rightarrow> RailwayData SlotResult
     \<Rightarrow> HealthStatus list" where
  "statuses uptimeResult supabaseResult railwayResult =
     filter (\<lambda>s. s \<noteq> Unknown)
       [uptimeEntry uptimeResult, supabaseEntry supabaseResult, railwayEntry railwayResult]"

definition deriveOverallStatus :: "HealthStatus list \<Rightarrow> HealthStatus" where
  "deriveOverallStatus sts =
     (let hasDown = Down \<in> set sts;
          hasDegraded = Degraded \<in> set sts
      in if hasDown then Down else if hasDegraded then Degraded else Healthy)"

text \<open>
  The alerts of the briefing. The condition \<^verbatim>\<open>data?.newIssueCount ?? 0 > 0\<close> parses as
  \<^verbatim>\<open>data?.newIssueCount ?? (0 > 0)\<close>: with a payload it is the count itself, true when
  non-zero; without one it is \<^verbatim>\<open>false\<close>.
\<close>

definition sentryAlerts :: "sched_env \<Rightarrow> SentryData SlotResult \<Rightarrow> Alert list" where
  "sentryAlerts env sentryResult =
     (case slot_data sentryResult of
        None \<Rightarrow> []
      | Some d \<Rightarrow>
          if newIssueCount d \<noteq> 0 then
            [\<lparr>severity = Warning, alert_tool = ''sentry'',
              message = show_int (newIssueCount d) @ '' new error issues detected'',
              details = None,
              actionUrl = Some (''https://sentry.io/organizations/'' @ env_str (SENTRY_ORG env)
                                @ ''/issues/'')\<rparr>]
          else [])"

definition silentShopAlerts :: "SupabaseData SlotResult \<Rightarrow> Alert list" where
  "silentShopAlerts supabaseResult =
     (let shops = (case slot_data supabaseResult of None \<Rightarrow> [] | Some d \<Rightarrow> silentShops d)
      in if length shops > 0 then
           [\<lparr>severity = Info, alert_tool = ''supabase'',
             message = show_nat (length shops) @ '' shops inactive for 3+ days'',
             details = None, actionUrl = None\<rparr>]
         else [])"

definition buildBriefing ::
  "sched_env \<Rightarrow> string \<Rightarrow> UptimeData list ToolResult settled \<Rightarrow> SupabaseData ToolResult settled
     \<Rightarrow> SentryData ToolResult settled \<Rightarrow> RailwayData ToolResult settled
     \<Rightarrow> EmailData ToolResult settled \<Rightarrow> MorningBriefing" where
  "buildBriefing env now uptimeS supabaseS sentryS railwayS emailS =
     (let uptimeResult = getResult uptimeS;
          supabaseResult = getResult supabaseS;
          sentryResult = getResult sentryS;
          railwayResult = getResult railwayS;
          emailResult = getResult emailS
      in \<lparr>briefing_timestamp = now,
          overallStatus = deriveOverallStatus (statuses uptimeResult supabaseResult railwayResult),
          uptime = uptimeResult, supabase = supabaseResult, sentry = sentryResult,
          railway = railwayResult, email = emailResult,
          alerts = sentryAlerts env sentryResult @ silentShopAlerts supabaseResult\<rparr>)"

text \<open>
  \<^verbatim>\<open>Promise.allSettled\<close> never rejects, every field access of the body is optional-chained
  and \<^verbatim>\<open>sendBriefing\<close> catches its own faults, so the \<^verbatim>\<open>catch\<close> of the source is not
  reached: the body sends the briefing and logs it. \<open>buildBriefing\<close> is the body up to the
  \<^verbatim>\<open>briefing\<close> object.
\<close>

definition runMorningBriefing ::
  "sched_env \<Rightarrow> string \<Rightarrow> UptimeData list ToolResult settled \<Rightarrow> SupabaseData ToolResult settled
     \<Rightarrow> SentryData ToolResult settled \<Rightarrow> RailwayData ToolResult settled
     \<Rightarrow> EmailData ToolResult settled \<Rightarrow> notifier_call list \<times> log_event list" where
  "runMorningBriefing env now uptimeS supabaseS sentryS railwayS emailS =
     (let briefing = buildBriefing env now uptimeS supabaseS sentryS railwayS emailS
      in ([SendBriefing briefing],
          [Log ''[SCHEDULER] Running morning briefing...'',
           Log ''[SCHEDULER] Morning briefing sent. Summary:'',
           LogBriefing briefing]))"

section \<open>Observing a run\<close>

fun briefingsOf :: "notifier_call list \<Rightarrow> MorningBriefing list" where
  "briefingsOf [] = []"
| "briefingsOf (SendAlert a # cs) = briefingsOf cs"
| "briefingsOf (SendBriefing b # cs) = b # briefingsOf cs"

text \<open>The overall status of every briefing a full cycle hands to the notifier.\<close>

definition fullCycleStatus ::
  "sched_env \<Rightarrow> string \<Rightarrow> UptimeData list ToolResult settled \<Rightarrow> SupabaseData ToolResult settled
     \<Rightarrow> SentryData ToolResult settled \<Rightarrow> RailwayData ToolResult settled
     \<Rightarrow> EmailData ToolResult settled \<Rightarrow> HealthStatus list" where
  "fullCycleStatus env now u s se r e =
     map overallStatus (briefingsOf (fst (runMorningBriefing env now u s se r e)))"

text \<open>The alert list of every briefing a full cycle hands to the notifier.\<close>

definition fullCycleAlerts ::
  "sched_env \<Rightarrow> string \<Rightarrow> UptimeData list ToolResult settled \<Rightarrow> SupabaseData ToolResult settled
     \<Rightarrow> SentryData ToolResult settled \<Rightarrow> RailwayData ToolResult settled
     \<Rightarrow> EmailData ToolResult settled \<Rightarrow> Alert list list" where
  "fullCycleAlerts env now u s se r e =
     map alerts (briefingsOf (fst (runMorningBriefing env now u s se r e)))"

text \<open>The aggregate of the uptime endpoints as the full cycle reads it off an envelope.\<close>

definition uptimeAggregate :: "UptimeData list ToolResult \<Rightarrow> HealthStatus" where
  "uptimeAggregate u = uptimeEntry (getResult (Fulfilled u))"

text \<open>
  The envelope invariant of the specification: a failed envelope carries a reason that is
  not empty, a successful one carries none.
\<close>

definition envelopeInvariant :: "'a ToolResult \<Rightarrow> bool" where
  "envelopeInvariant r =
     (if success r then error r = None
      else (case error r of None \<Rightarrow> False | Some m \<Rightarrow> m \<noteq> []))"

text \<open>A caught fault describes itself: an \<^verbatim>\<open>Error\<close> whose message is not empty, or no \<^verbatim>\<open>Error\<close>.\<close>

definition described :: "thrown \<Rightarrow> bool" where
  "described err = (case err of ErrorObj m \<Rightarrow> m \<noteq> [] | NonError \<Rightarrow> True)"

definition describedFault :: "thrown + 'a \<Rightarrow> bool" where
  "describedFault x = (case x of Inl err \<Rightarrow> described err | Inr v \<Rightarrow> True)"

text \<open>The specification's round trip alone: a reason is present exactly on failure.\<close>

definition reasonIffFailed :: "'a ToolResult \<Rightarrow> bool" where
  "reasonIffFailed r = (success r = (error r = None))"

text \<open>Every fault the deployment tool can catch describes itself.\<close>

definition railwayFaultsDescribed :: "fetch_result \<Rightarrow> bool" where
  "railwayFaultsDescribed f =
     (case f of Inl err \<Rightarrow> described err | Inr res \<Rightarrow> describedFault (res_text res))"

text \<open>Every fault the datastore tool can catch describes itself.\<close>

definition supabaseFaultsDescribed :: "supabase_io \<Rightarrow> bool" where
  "supabaseFaultsDescribed io =
     (describedFault (connectionCheck io) \<and> describedFault (totalShopsQuery io)
      \<and> describedFault (activeShopsQuery io) \<and> describedFault (ticketsQuery io)
      \<and> describedFault (aiSessionsQuery io) \<and> describedFault (silentShopsQuery io))"


section \<open>Example runs\<close>

definition ex_env :: sched_env where
  "ex_env = \<lparr>SENTRY_ORG = Some ''crimson-forge'', RAILWAY_PROJECT_ID = Some ''p-1''\<rparr>"

definition ex_now :: string where
  "ex_now = ''2026-02-25T13:00:00.000Z''"

definition ex_refused :: fetch_result where
  "ex_refused = Inl (ErrorObj ''fetch failed'')"

definition ex_ok :: "string \<Rightarrow> fetch_result" where
  "ex_ok body = Inr \<lparr>res_ok = True, res_status = 200, res_statusText = ''OK'', res_text = Inr body\<rparr>"

definition ex_frontend :: string where
  "ex_frontend = ''https://crimsonforge.pro''"

definition ex_api :: string where
  "ex_api = ''https://api.crimsonforge.pro/health''"

text \<open>Both endpoints answer 200 at the first attempt.\<close>

definition ex_uptime_healthy :: "UptimeData list ToolResult" where
  "ex_uptime_healthy =
     runUptimeCheck ex_now
       [(ex_frontend, (ex_ok ''ok'', 187), (ex_refused, 0)),
        (ex_api, (ex_ok ''ok'', 92), (ex_refused, 0))]"

text \<open>The frontend answers; both attempts at the API are refused.\<close>

definition ex_uptime_api_down :: "UptimeData list ToolResult" where
  "ex_uptime_api_down =
     runUptimeCheck ex_now
       [(ex_frontend, (ex_ok ''ok'', 187), (ex_refused, 0)),
        (ex_api, (ex_refused, 0), (ex_refused, 0))]"

definition ex_io_up :: supabase_io where
  "ex_io_up =
     \<lparr>connectionCheck = Inr None, totalShopsQuery = Inr (Some 12),
      activeShopsQuery = Inr (Some 7), ticketsQuery = Inr (Some 87),
      aiSessionsQuery = Inr (Some 34), silentShopsQuery = Inr (Some [])\<rparr>"

definition ex_supabase_healthy :: "SupabaseData ToolResult" where
  "ex_supabase_healthy = runSupabaseCheck ex_now (\<lambda>s. 0) 1772024400000 ex_io_up"

text \<open>The connection check of the datastore reports an error.\<close>

definition ex_supabase_failed :: "SupabaseData ToolResult" where
  "ex_supabase_failed =
     runSupabaseCheck ex_now (\<lambda>s. 0) 1772024400000
       (ex_io_up\<lparr>connectionCheck := Inr (Some ''JWT expired'')\<rparr>)"

text \<open>An envelope of the issue tracker with nothing to report.\<close>

definition ex_sentry_quiet :: "SentryData ToolResult" where
  "ex_sentry_quiet =
     \<lparr>tool = ''sentry'', success = True, timestamp = ex_now,
      data = \<lparr>newIssueCount = 0, unresolvedCount = 0, recentIssues = []\<rparr>, error = None\<rparr>"

text \<open>
  The bodies the deployment API sends in the examples, each named by its text, and what
  \<^verbatim>\<open>JSON.parse\<close> makes of them.
\<close>

definition ex_deployment :: "string \<Rightarrow> json" where
  "ex_deployment st =
     JObj [(''data'',
       JObj [(''service'',
         JObj [(''id'', JStr ''s-1''), (''name'', JStr ''backend''),
               (''deployments'',
                 JObj [(''edges'',
                   JArr [JObj [(''node'',
                     JObj [(''id'', JStr ''d-9''), (''status'', JStr st),
                           (''createdAt'', JStr ''2026-02-24T21:14:03.000Z'')])]])])])])]"

definition ex_no_edges :: json where
  "ex_no_edges =
     JObj [(''data'',
       JObj [(''service'',
         JObj [(''id'', JStr ''s-1''), (''name'', JStr ''backend''),
               (''deployments'', JObj [])])])]"

definition ex_parse :: "string \<Rightarrow> json option" where
  "ex_parse body =
     (if body = ''latest: SUCCESS'' then Some (ex_deployment ''SUCCESS'')
      else if body = ''latest: CRASHED'' then Some (ex_deployment ''CRASHED'')
      else if body = ''null'' then Some JNull
      else if body = ''deployments without edges'' then Some ex_no_edges
      else None)"

definition ex_railway_healthy :: "RailwayData ToolResult" where
  "ex_railway_healthy = runRailwayCheck ex_now ex_parse (ex_ok ''latest: SUCCESS'')"

text \<open>The latest deployment has crashed.\<close>

definition ex_railway_down :: "RailwayData ToolResult" where
  "ex_railway_down = runRailwayCheck ex_now ex_parse (ex_ok ''latest: CRASHED'')"

text \<open>The request of the deployment tool is refused.\<close>

definition ex_railway_failed :: "RailwayData ToolResult" where
  "ex_railway_failed = runRailwayCheck ex_now ex_parse ex_refused"

definition ex_email :: "EmailData ToolResult" where
  "ex_email = runEmailCheck ex_now ex_now None None None"

text \<open>The request is rejected with an \<^verbatim>\<open>Error\<close> that has no message.\<close>

definition ex_no_message :: fetch_result where
  "ex_no_message = Inl (ErrorObj [])"

text \<open>The issue tracker answers 200 with an object where the list of issues should be.\<close>

definition ex_sentry_object :: json where
  "ex_sentry_object = JObj [(''detail'', JStr ''Internal Error'')]"



text \<open>The uptime tool's own failure envelope, as its \<^verbatim>\<open>catch\<close> builds it.\<close>

definition ex_uptime_failed :: "UptimeData list ToolResult" where
  "ex_uptime_failed =
     \<lparr>tool = ''uptime'', success = False, timestamp = ex_now, data = [],
      error = Some ''Unknown error''\<rparr>"

section \<open>Unfolding sets and evaluated examples\<close>

lemmas js_defs = readProp_def readIndex0_def cannotRead_def optProp_def orNull_def

lemmas tool_defs = runUptimeCheck_def checkEndpoint_def pingEndpoint_def
  runSupabaseCheck_def supabaseQueries_def tryBind_def orZero_def toSilentShop_def
  runSentryCheck_def fetchSentryIssues_def toSentryIssue_def
  runRailwayCheck_def fetchRailwayStatus_def latestDeployment_def resolveStatus_def
  unknownRailway_def runEmailCheck_def falsy_env_def errMessage_def js_defs

lemmas sched_defs = runMorningBriefing_def buildBriefing_def getResult_def statuses_def
  uptimeEntry_def supabaseEntry_def railwayEntry_def deriveOverallStatus_def
  sentryAlerts_def silentShopAlerts_def fullCycleStatus_def fullCycleAlerts_def Let_def

lemmas quick_defs = runSilentHealthCheck_def isUptimeDown_def isRailwayDown_def
  uptimeDownAlert_def railwayDownAlert_def downEndpoints_def env_str_def

lemma ex_uptime_healthy_eval:
  "ex_uptime_healthy =
     \<lparr>tool = ''uptime'', success = True, timestamp = ex_now,
      data = [\<lparr>url = ex_frontend, status = Healthy, responseMs = Some 187, statusCode = Some 200\<rparr>,
              \<lparr>url = ex_api, status = Healthy, responseMs = Some 92, statusCode = Some 200\<rparr>],
      error = None\<rparr>"
  by (simp add: ex_uptime_healthy_def ex_ok_def tool_defs)

lemma ex_uptime_api_down_eval:
  "ex_uptime_api_down =
     \<lparr>tool = ''uptime'', success = True, timestamp = ex_now,
      data = [\<lparr>url = ex_frontend, status = Healthy, responseMs = Some 187, statusCode = Some 200\<rparr>,
              \<lparr>url = ex_api, status = Down, responseMs = None, statusCode = None\<rparr>],
      error = None\<rparr>"
  by (simp add: ex_uptime_api_down_def ex_ok_def ex_refused_def tool_defs)

lemma ex_supabase_healthy_eval:
  "ex_supabase_healthy =
     \<lparr>tool = ''supabase'', success = True, timestamp = ex_now,
      data = \<lparr>connectionStatus = Healthy, totalShops = 12, activeShopsLast24h = 7,
              ticketsCreatedLast24h = 87, aiSessionsLast24h = 34, silentShops = []\<rparr>,
      error = None\<rparr>"
  by (simp add: ex_supabase_healthy_def ex_io_up_def tool_defs)

lemma ex_supabase_failed_eval:
  "ex_supabase_failed =
     \<lparr>tool = ''supabase'', success = False, timestamp = ex_now,
      data = \<lparr>connectionStatus = Down, totalShops = 0, activeShopsLast24h = 0,
              ticketsCreatedLast24h = 0, aiSessionsLast24h = 0, silentShops = []\<rparr>,
      error = Some ''Database connection failed: JWT expired''\<rparr>"
  by (simp add: ex_supabase_failed_def ex_io_up_def tool_defs)

lemma ex_railway_healthy_eval:
  "ex_railway_healthy =
     \<lparr>tool = ''railway'', success = True, timestamp = ex_now,
      data = \<lparr>railway_status = Healthy, latestDeploymentStatus = Some (JStr ''SUCCESS''),
              latestDeploymentAt = Some (JStr ''2026-02-24T21:14:03.000Z'')\<rparr>,
      error = None\<rparr>"
  by (simp add: ex_railway_healthy_def ex_ok_def ex_parse_def ex_deployment_def tool_defs)

lemma ex_railway_down_eval:
  "ex_railway_down =
     \<lparr>tool = ''railway'', success = True, timestamp = ex_now,
      data = \<lparr>railway_status = Down, latestDeploymentStatus = Some (JStr ''CRASHED''),
              latestDeploymentAt = Some (JStr ''2026-02-24T21:14:03.000Z'')\<rparr>,
      error = None\<rparr>"
  by (simp add: ex_railway_down_def ex_ok_def ex_parse_def ex_deployment_def tool_defs)

lemma ex_railway_failed_eval:
  "ex_railway_failed =
     \<lparr>tool = ''railway'', success = False, timestamp = ex_now,
      data = \<lparr>railway_status = Unknown, latestDeploymentStatus = Some JNull,
              latestDeploymentAt = Some JNull\<rparr>,
      error = Some ''fetch failed''\<rparr>"
  by (simp add: ex_railway_failed_def ex_refused_def tool_defs)

lemmas ex_evals = ex_uptime_healthy_eval ex_uptime_api_down_eval ex_supabase_healthy_eval
  ex_supabase_failed_eval ex_railway_healthy_eval ex_railway_down_eval ex_railway_failed_eval
  ex_sentry_quiet_def

section \<open>Status derivation of the full cycle\<close>

lemma fullCycleStatus_fulfilled:
  "fullCycleStatus env now (Fulfilled u) (Fulfilled s) se (Fulfilled r) e =
     [deriveOverallStatus [uptimeAggregate u, connectionStatus (data s), railway_status (data r)]]"
  by (simp add: sched_defs uptimeAggregate_def)

lemma uptimeAggregate_eq:
  "uptimeAggregate u = (if list_all (\<lambda>e. status e = Healthy) (data u) then Healthy else Degraded)"
  by (simp add: uptimeAggregate_def uptimeEntry_def getResult_def)

lemma uptimeAggregate_down_endpoint:
  assumes "list_ex (\<lambda>e. status e = Down) (data u)"
  shows "uptimeAggregate u = Degraded"
proof -
  from assms obtain x where x: "x \<in> set (data u)" "status x = Down"
    by (auto simp: list_ex_iff)
  then have "status x \<noteq> Healthy" by simp
  with x(1) have "\<not> list_all (\<lambda>e. status e = Healthy) (data u)"
    unfolding list_all_iff by blast
  then show ?thesis by (simp add: uptimeAggregate_eq)
qed

text \<open>
  C1 (as amended). Over the three sources as the full cycle reads them, \<open>down\<close> beats
  \<open>degraded\<close> beats \<open>healthy\<close>: the overall status is \<open>down\<close> when any of them is \<open>down\<close>,
  else \<open>degraded\<close> when any is \<open>degraded\<close>, else \<open>healthy\<close>. The uptime source is \<open>healthy\<close>
  when every endpoint is healthy and \<open>degraded\<close> otherwise, never \<open>down\<close>: an endpoint that is
  down makes the overall status \<open>degraded\<close> unless the datastore or the deployment is \<open>down\<close>.
\<close>

theorem status_precedence:
  "fullCycleStatus env now (Fulfilled u) (Fulfilled s) se (Fulfilled r) e =
     (let votes = [uptimeAggregate u, connectionStatus (data s), railway_status (data r)]
      in [if Down \<in> set votes then Down else if Degraded \<in> set votes then Degraded else Healthy])
   \<and> uptimeAggregate u = (if list_all (\<lambda>e. status e = Healthy) (data u) then Healthy else Degraded)
   \<and> (list_ex (\<lambda>e. status e = Down) (data u) \<longrightarrow> connectionStatus (data s) \<noteq> Down
        \<longrightarrow> railway_status (data r) \<noteq> Down
        \<longrightarrow> fullCycleStatus env now (Fulfilled u) (Fulfilled s) se (Fulfilled r) e = [Degraded])"
  using uptimeAggregate_down_endpoint [of u]
  by (auto simp: fullCycleStatus_fulfilled deriveOverallStatus_def Let_def uptimeAggregate_eq)

theorem status_precedence_witness:
  "fullCycleStatus ex_env ex_now (Fulfilled ex_uptime_api_down) (Fulfilled ex_supabase_failed)
     (Fulfilled ex_sentry_quiet) (Fulfilled ex_railway_healthy) (Fulfilled ex_email) = [Down]
   \<and> uptimeAggregate ex_uptime_api_down = Degraded
   \<and> fullCycleStatus ex_env ex_now (Fulfilled ex_uptime_api_down) (Fulfilled ex_supabase_healthy)
     (Fulfilled ex_sentry_quiet) (Fulfilled ex_railway_healthy) (Fulfilled ex_email) = [Degraded]"
  using status_precedence [of ex_env ex_now ex_uptime_api_down ex_supabase_failed
      "Fulfilled ex_sentry_quiet" ex_railway_healthy "Fulfilled ex_email"]
    status_precedence [of ex_env ex_now ex_uptime_api_down ex_supabase_healthy
      "Fulfilled ex_sentry_quiet" ex_railway_healthy "Fulfilled ex_email"]
  by (simp add: ex_evals uptimeAggregate_eq Let_def)

text \<open>
  The claim as stated fails: the uptime tool succeeds, the API endpoint is down (both attempts
  refused), the datastore and the deployment are healthy, and the briefing says \<open>degraded\<close>.
\<close>

theorem single_down_endpoint_counterexample:
  "success ex_uptime_api_down
   \<and> map status (data ex_uptime_api_down) = [Healthy, Down]
   \<and> fullCycleStatus ex_env ex_now (Fulfilled ex_uptime_api_down) (Fulfilled ex_supabase_healthy)
        (Fulfilled ex_sentry_quiet) (Fulfilled ex_railway_healthy) (Fulfilled ex_email) = [Degraded]"
  by (simp add: ex_evals fullCycleStatus_fulfilled uptimeAggregate_eq deriveOverallStatus_def)

lemma railway_failure_unknown:
  "\<not> success (runRailwayCheck now parse f) \<Longrightarrow>
     railway_status (data (runRailwayCheck now parse f)) = Unknown"
  by (simp add: runRailwayCheck_def unknownRailway_def split: sum.splits)

lemma supabase_failure_down:
  "\<not> success (runSupabaseCheck now parseDate nowMs io) \<Longrightarrow>
     connectionStatus (data (runSupabaseCheck now parseDate nowMs io)) = Down"
  by (simp add: runSupabaseCheck_def split: sum.splits)

lemma derive_drop_unknown:
  "deriveOverallStatus (a # b # Unknown # sts) = deriveOverallStatus (a # b # sts)"
  by (simp add: deriveOverallStatus_def)

lemma derive_drop_healthy:
  "deriveOverallStatus (Healthy # sts) = deriveOverallStatus sts"
  by (simp add: deriveOverallStatus_def)

lemma derive_down:
  "Down \<in> set sts \<Longrightarrow> deriveOverallStatus sts = Down"
  by (simp add: deriveOverallStatus_def)

text \<open>
  C2 (as amended). The status derivation never reads the ok flag; a source counts by its
  payload. The deployment tool's failed envelope (payload status \<open>unknown\<close>) and a rejected
  datastore or deployment call are left out of the vote, and the uptime tool's failed
  envelope (no endpoints) leaves the result to the other two sources: none of them forces
  \<open>down\<close>. The datastore tool's failed envelope carries \<open>connectionStatus = down\<close> and makes
  the overall status \<open>down\<close>.
\<close>

theorem faulted_source_in_status:
  "fullCycleStatus env now (Fulfilled (u\<lparr>success := ok1\<rparr>)) (Fulfilled (s\<lparr>success := ok2\<rparr>)) se
      (Fulfilled (r\<lparr>success := ok3\<rparr>)) e
    = fullCycleStatus env now (Fulfilled u) (Fulfilled s) se (Fulfilled r) e
   \<and> (\<not> success (runRailwayCheck now' parse f) \<longrightarrow>
      fullCycleStatus env now (Fulfilled u) (Fulfilled s) se
        (Fulfilled (runRailwayCheck now' parse f)) e
      = [deriveOverallStatus [uptimeAggregate u, connectionStatus (data s)]])
   \<and> (\<not> success u \<longrightarrow> data u = [] \<longrightarrow>
      fullCycleStatus env now (Fulfilled u) (Fulfilled s) se (Fulfilled r) e
      = [deriveOverallStatus [connectionStatus (data s), railway_status (data r)]])
   \<and> fullCycleStatus env now (Fulfilled u) (Rejected x) se (Fulfilled r) e
      = [deriveOverallStatus [uptimeAggregate u, railway_status (data r)]]
   \<and> fullCycleStatus env now (Fulfilled u) (Fulfilled s) se (Rejected x) e
      = [deriveOverallStatus [uptimeAggregate u, connectionStatus (data s)]]
   \<and> (\<not> success (runSupabaseCheck now' parseDate nowMs io) \<longrightarrow>
      fullCycleStatus env now (Fulfilled u) (Fulfilled (runSupabaseCheck now' parseDate nowMs io))
        se (Fulfilled r) e
      = [Down])"
proof -
  have a: "fullCycleStatus env now (Fulfilled u) (Fulfilled s) se
        (Fulfilled (runRailwayCheck now' parse f)) e
      = [deriveOverallStatus [uptimeAggregate u, connectionStatus (data s)]]"
    if "\<not> success (runRailwayCheck now' parse f)"
    using railway_failure_unknown [OF that]
    by (simp add: fullCycleStatus_fulfilled derive_drop_unknown)
  have b: "fullCycleStatus env now (Fulfilled u) (Fulfilled s) se (Fulfilled r) e
      = [deriveOverallStatus [connectionStatus (data s), railway_status (data r)]]"
    if "data u = []"
    using that by (simp add: fullCycleStatus_fulfilled uptimeAggregate_eq derive_drop_healthy)
  have c: "fullCycleStatus env now (Fulfilled u) (Rejected x) se (Fulfilled r) e
      = [deriveOverallStatus [uptimeAggregate u, railway_status (data r)]]"
    by (simp add: sched_defs uptimeAggregate_def)
  have d: "fullCycleStatus env now (Fulfilled u) (Fulfilled s) se (Rejected x) e
      = [deriveOverallStatus [uptimeAggregate u, connectionStatus (data s)]]"
    by (simp add: sched_defs uptimeAggregate_def)
  have e: "fullCycleStatus env now (Fulfilled u) (Fulfilled (runSupabaseCheck now' parseDate nowMs io))
        se (Fulfilled r) e = [Down]"
    if "\<not> success (runSupabaseCheck now' parseDate nowMs io)"
    using supabase_failure_down [OF that]
    by (simp add: fullCycleStatus_fulfilled derive_down)
  have f: "fullCycleStatus env now (Fulfilled (u\<lparr>success := ok1\<rparr>))
        (Fulfilled (s\<lparr>success := ok2\<rparr>)) se (Fulfilled (r\<lparr>success := ok3\<rparr>)) e
      = fullCycleStatus env now (Fulfilled u) (Fulfilled s) se (Fulfilled r) e"
    by (simp add: fullCycleStatus_fulfilled uptimeAggregate_eq)
  from a b c d e f show ?thesis by blast
qed

theorem faulted_source_in_status_witness:
  "success ex_railway_failed = False
   \<and> fullCycleStatus ex_env ex_now (Fulfilled ex_uptime_healthy) (Fulfilled ex_supabase_healthy)
       (Fulfilled ex_sentry_quiet) (Fulfilled ex_railway_failed) (Fulfilled ex_email) = [Healthy]
   \<and> success ex_uptime_failed = False
   \<and> fullCycleStatus ex_env ex_now (Fulfilled ex_uptime_failed) (Fulfilled ex_supabase_healthy)
       (Fulfilled ex_sentry_quiet) (Fulfilled ex_railway_healthy) (Fulfilled ex_email) = [Healthy]
   \<and> success ex_supabase_failed = False
   \<and> fullCycleStatus ex_env ex_now (Fulfilled ex_uptime_healthy) (Fulfilled ex_supabase_failed)
       (Fulfilled ex_sentry_quiet) (Fulfilled ex_railway_healthy) (Fulfilled ex_email) = [Down]"
  using faulted_source_in_status [where now' = ex_now and parse = ex_parse and f = ex_refused
      and env = ex_env and now = ex_now and u = ex_uptime_failed and s = ex_supabase_healthy
      and se = "Fulfilled ex_sentry_quiet" and e = "Fulfilled ex_email" and r = ex_railway_healthy
      and x = NonError and parseDate = "\<lambda>s. 0" and nowMs = 1772024400000
      and io = "ex_io_up\<lparr>connectionCheck := Inr (Some ''JWT expired'')\<rparr>"
      and ?ok1.0 = True and ?ok2.0 = True and ?ok3.0 = True]
    faulted_source_in_status [where now' = ex_now and parse = ex_parse and f = ex_refused
      and env = ex_env and now = ex_now and u = ex_uptime_healthy and s = ex_supabase_healthy
      and se = "Fulfilled ex_sentry_quiet" and e = "Fulfilled ex_email" and r = ex_railway_healthy
      and x = NonError and parseDate = "\<lambda>s. 0" and nowMs = 1772024400000
      and io = "ex_io_up\<lparr>connectionCheck := Inr (Some ''JWT expired'')\<rparr>"
      and ?ok1.0 = True and ?ok2.0 = True and ?ok3.0 = True]
  unfolding ex_railway_failed_def [symmetric] ex_supabase_failed_def [symmetric]
  by (simp add: ex_evals ex_uptime_failed_def uptimeAggregate_eq deriveOverallStatus_def)

text \<open>
  The claim as stated fails: the connection check of the datastore reports an error, the tool
  answers with ok = false, every endpoint and the deployment are healthy, and the briefing
  says \<open>down\<close>.
\<close>

theorem datastore_fault_counterexample:
  "success ex_supabase_failed = False
   \<and> map status (data ex_uptime_healthy) = [Healthy, Healthy]
   \<and> railway_status (data ex_railway_healthy) = Healthy
   \<and> fullCycleStatus ex_env ex_now (Fulfilled ex_uptime_healthy) (Fulfilled ex_supabase_failed)
       (Fulfilled ex_sentry_quiet) (Fulfilled ex_railway_healthy) (Fulfilled ex_email) = [Down]"
  by (simp add: ex_evals fullCycleStatus_fulfilled uptimeAggregate_eq deriveOverallStatus_def)

section \<open>Alerts of the full cycle\<close>

text \<open>
  C3 (as amended). The alert list of the briefing never holds a critical alert, whatever the
  uptime envelope contains: it is at most one warning (the issue tracker's payload has a
  non-zero count of new issues) followed by at most one info alert (the datastore's payload
  lists silent shops). A down endpoint raises its critical alert on the quick path only.
\<close>

theorem full_cycle_alert_severities:
  "map (map severity) (fullCycleAlerts env now u s se r e) =
     [(if (case se of Fulfilled v \<Rightarrow> newIssueCount (data v) \<noteq> 0 | Rejected x \<Rightarrow> False)
       then [Warning] else [])
      @ (if (case s of Fulfilled v \<Rightarrow> silentShops (data v) \<noteq> [] | Rejected x \<Rightarrow> False)
         then [Info] else [])]
   \<and> list_all (\<lambda>as. Critical \<notin> set (map severity as)) (fullCycleAlerts env now u s se r e)"
  by (cases se; cases s) (simp_all add: sched_defs)

theorem full_cycle_alert_severities_witness:
  "map (map severity)
     (fullCycleAlerts ex_env ex_now (Fulfilled ex_uptime_api_down) (Fulfilled ex_supabase_healthy)
        (Fulfilled ex_sentry_quiet) (Fulfilled ex_railway_down) (Fulfilled ex_email)) = [[]]"
  using full_cycle_alert_severities [of ex_env ex_now "Fulfilled ex_uptime_api_down"
      "Fulfilled ex_supabase_healthy" "Fulfilled ex_sentry_quiet" "Fulfilled ex_railway_down"
      "Fulfilled ex_email"]
  by (simp add: ex_evals)

text \<open>
  The claim as stated fails: the uptime tool succeeds with the API endpoint down, and the
  briefing's alert list is empty.
\<close>

theorem full_cycle_no_uptime_alert_counterexample:
  "success ex_uptime_api_down
   \<and> map status (data ex_uptime_api_down) = [Healthy, Down]
   \<and> fullCycleAlerts ex_env ex_now (Fulfilled ex_uptime_api_down) (Fulfilled ex_supabase_healthy)
        (Fulfilled ex_sentry_quiet) (Fulfilled ex_railway_healthy) (Fulfilled ex_email) = [[]]"
  by (simp add: ex_evals sched_defs)

section \<open>Total tolerance of the full cycle\<close>

lemma getResult_rejected:
  "slot_success (getResult (Rejected x)) = False
   \<and> slot_data (getResult (Rejected x)) = None
   \<and> slot_error (getResult (Rejected x)) \<noteq> None
   \<and> slot_error (getResult (Rejected x)) \<noteq> Some []"
  by (cases x) (simp_all add: getResult_def)

text \<open>
  C4. Whatever the five tools deliver, each an envelope (ok true or false) or a rejection,
  the full cycle hands exactly one briefing to the notifier and logs it as sent, with no
  error line; its five slots are the five results (a rejection as a failed slot), and its
  overall status is one of healthy, degraded and down.
\<close>

theorem full_cycle_always_reports:
  "\<exists>b. fst (runMorningBriefing env now u s se r e) = [SendBriefing b]
      \<and> snd (runMorningBriefing env now u s se r e) =
          [Log ''[SCHEDULER] Running morning briefing...'',
           Log ''[SCHEDULER] Morning briefing sent. Summary:'', LogBriefing b]
      \<and> briefing_timestamp b = now
      \<and> uptime b = getResult u \<and> supabase b = getResult s \<and> sentry b = getResult se
      \<and> railway b = getResult r \<and> email b = getResult e
      \<and> overallStatus b \<in> {Healthy, Degraded, Down}"
  by (simp add: runMorningBriefing_def buildBriefing_def Let_def deriveOverallStatus_def)

theorem full_cycle_always_reports_witness:
  "fst (runMorningBriefing ex_env ex_now (Rejected NonError) (Fulfilled ex_supabase_failed)
         (Rejected (ErrorObj ''boom'')) (Fulfilled ex_railway_failed) (Fulfilled ex_email))
   = [SendBriefing
       \<lparr>briefing_timestamp = ex_now, overallStatus = Down,
        uptime = getResult (Rejected NonError),
        supabase = getResult (Fulfilled ex_supabase_failed),
        sentry = getResult (Rejected (ErrorObj ''boom'')),
        railway = getResult (Fulfilled ex_railway_failed),
        email = getResult (Fulfilled ex_email),
        alerts = []\<rparr>]"
  using full_cycle_always_reports [of ex_env ex_now "Rejected NonError"
      "Fulfilled ex_supabase_failed" "Rejected (ErrorObj ''boom'')" "Fulfilled ex_railway_failed"
      "Fulfilled ex_email"]
  by (simp add: ex_evals sched_defs)

section \<open>The quick cycle\<close>

lemma filter_single_ex: "filter P xs = [d] \<Longrightarrow> list_ex P xs"
proof -
  assume "filter P xs = [d]"
  then have "d \<in> set (filter P xs)" by simp
  then show ?thesis by (auto simp: list_ex_iff)
qed

text \<open>
  C5. When every endpoint of the uptime envelope is healthy and the deployment envelope's
  status is healthy, the quick cycle makes no call to the notifier.
\<close>

theorem quick_path_silence:
  "list_all (\<lambda>e. status e = Healthy) (data u) \<Longrightarrow> railway_status (data r) = Healthy \<Longrightarrow>
     fst (runSilentHealthCheck env (Fulfilled u) (Fulfilled r)) = []"
proof -
  assume h: "list_all (\<lambda>e. status e = Healthy) (data u)" and r: "railway_status (data r) = Healthy"
  have "\<not> list_ex (\<lambda>e. status e = Down) (data u)"
    using h unfolding list_all_iff list_ex_iff by auto
  then show ?thesis using r by (simp add: quick_defs)
qed

theorem quick_path_silence_witness:
  "list_all (\<lambda>e. status e = Healthy) (data ex_uptime_healthy)
   \<and> railway_status (data ex_railway_healthy) = Healthy
   \<and> fst (runSilentHealthCheck ex_env (Fulfilled ex_uptime_healthy) (Fulfilled ex_railway_healthy)) = []"
proof -
  have h: "list_all (\<lambda>e. status e = Healthy) (data ex_uptime_healthy)"
    by (simp add: ex_evals)
  have r: "railway_status (data ex_railway_healthy) = Healthy"
    by (simp add: ex_evals)
  from h r quick_path_silence [OF h r, of ex_env] show ?thesis by simp
qed

text \<open>
  C6. When the uptime tool succeeded, exactly one endpoint is down and the deployment status
  is not down, the quick cycle delivers exactly one alert: it is critical and its details
  are the URL of the down endpoint.
\<close>

theorem quick_path_escalation:
  "success u \<Longrightarrow> filter (\<lambda>e. status e = Down) (data u) = [d] \<Longrightarrow>
   railway_status (data r) \<noteq> Down \<Longrightarrow>
     fst (runSilentHealthCheck env (Fulfilled u) (Fulfilled r)) =
       [SendAlert \<lparr>severity = Critical, alert_tool = ''uptime'', message = ''Services are DOWN'',
                   details = Some (url d), actionUrl = None\<rparr>]"
proof -
  assume s: "success u" and f: "filter (\<lambda>e. status e = Down) (data u) = [d]"
    and r: "railway_status (data r) \<noteq> Down"
  from filter_single_ex [OF f] have "list_ex (\<lambda>e. status e = Down) (data u)" .
  with s r f show ?thesis by (simp add: quick_defs)
qed

theorem quick_path_escalation_witness:
  "success ex_uptime_api_down
   \<and> filter (\<lambda>e. status e = Down) (data ex_uptime_api_down)
       = [\<lparr>url = ex_api, status = Down, responseMs = None, statusCode = None\<rparr>]
   \<and> railway_status (data ex_railway_healthy) \<noteq> Down
   \<and> fst (runSilentHealthCheck ex_env (Fulfilled ex_uptime_api_down) (Fulfilled ex_railway_healthy)) =
       [SendAlert \<lparr>severity = Critical, alert_tool = ''uptime'', message = ''Services are DOWN'',
                   details = Some ''https://api.crimsonforge.pro/health'', actionUrl = None\<rparr>]"
proof -
  have s: "success ex_uptime_api_down" by (simp add: ex_evals)
  have f: "filter (\<lambda>e. status e = Down) (data ex_uptime_api_down)
       = [\<lparr>url = ex_api, status = Down, responseMs = None, statusCode = None\<rparr>]"
    by (simp add: ex_evals)
  have r: "railway_status (data ex_railway_healthy) \<noteq> Down" by (simp add: ex_evals)
  from s f r quick_path_escalation [OF s f r, of ex_env] show ?thesis
    by (simp add: ex_api_def)
qed

lemma quick_cycle_rejection:
  "runSilentHealthCheck env (Rejected x) r =
     ([], [Log ''[SCHEDULER] Running silent health check...'',
           LogError ''[SCHEDULER] Error in silent health check:'' x])"
  by (simp add: runSilentHealthCheck_def)

text \<open>
  C7 (as amended). On the quick path a result with ok = false is read as not down: it
  raises no alert of its own and it does not suppress the alert of the other tool, which
  still fires when that tool succeeded and reports down. When neither tool reports a
  determined down the run is silent and logged as passed, also when both results are
  indeterminate.
\<close>

theorem quick_path_indeterminate_is_silent:
  "(\<not> success u \<longrightarrow>
      fst (runSilentHealthCheck env (Fulfilled u) (Fulfilled r)) =
        (if success r \<and> railway_status (data r) = Down then [SendAlert (railwayDownAlert env)]
         else []))
   \<and> (\<not> success r \<longrightarrow>
      fst (runSilentHealthCheck env (Fulfilled u) (Fulfilled r)) =
        (if success u \<and> list_ex (\<lambda>e. status e = Down) (data u)
         then [SendAlert (uptimeDownAlert (data u))] else []))
   \<and> (\<not> success u \<longrightarrow> \<not> success r \<longrightarrow>
      runSilentHealthCheck env (Fulfilled u) (Fulfilled r) =
        ([], [Log ''[SCHEDULER] Running silent health check...'',
              Log ''[SCHEDULER] Silent health check passed. No alerts needed.'']))
   \<and> (\<not> success u \<longrightarrow> railway_status (data r) \<noteq> Down \<longrightarrow>
      runSilentHealthCheck env (Fulfilled u) (Fulfilled r) =
        ([], [Log ''[SCHEDULER] Running silent health check...'',
              Log ''[SCHEDULER] Silent health check passed. No alerts needed.'']))
   \<and> (\<not> success r \<longrightarrow> \<not> list_ex (\<lambda>e. status e = Down) (data u) \<longrightarrow>
      runSilentHealthCheck env (Fulfilled u) (Fulfilled r) =
        ([], [Log ''[SCHEDULER] Running silent health check...'',
              Log ''[SCHEDULER] Silent health check passed. No alerts needed.'']))"
  by (simp add: runSilentHealthCheck_def isUptimeDown_def isRailwayDown_def)

theorem quick_path_indeterminate_is_silent_witness:
  "success ex_uptime_failed = False
   \<and> success ex_railway_failed = False
   \<and> runSilentHealthCheck ex_env (Fulfilled ex_uptime_failed) (Fulfilled ex_railway_failed) =
        ([], [Log ''[SCHEDULER] Running silent health check...'',
              Log ''[SCHEDULER] Silent health check passed. No alerts needed.''])
   \<and> fst (runSilentHealthCheck ex_env (Fulfilled ex_uptime_failed) (Fulfilled ex_railway_down)) =
        [SendAlert (railwayDownAlert ex_env)]
   \<and> fst (runSilentHealthCheck ex_env (Fulfilled ex_uptime_api_down) (Fulfilled ex_railway_failed)) =
        [SendAlert (uptimeDownAlert (data ex_uptime_api_down))]"
  using quick_path_indeterminate_is_silent [of ex_uptime_failed ex_env ex_railway_failed]
    quick_path_indeterminate_is_silent [of ex_uptime_failed ex_env ex_railway_down]
    quick_path_indeterminate_is_silent [of ex_uptime_api_down ex_env ex_railway_failed]
  by (simp add: ex_evals ex_uptime_failed_def)

text \<open>
  The claim as stated fails: the request of the deployment tool is refused, its envelope has
  ok = false, and the run is silent and logged as passed, exactly as the run in which the
  deployment is healthy.
\<close>

theorem quick_path_false_all_clear_counterexample:
  "success ex_railway_failed = False
   \<and> runSilentHealthCheck ex_env (Fulfilled ex_uptime_healthy) (Fulfilled ex_railway_failed) =
       ([], [Log ''[SCHEDULER] Running silent health check...'',
             Log ''[SCHEDULER] Silent health check passed. No alerts needed.''])
   \<and> runSilentHealthCheck ex_env (Fulfilled ex_uptime_healthy) (Fulfilled ex_railway_failed) =
       runSilentHealthCheck ex_env (Fulfilled ex_uptime_healthy) (Fulfilled ex_railway_healthy)"
  by (simp add: ex_evals quick_defs)

section \<open>The envelopes of the tools\<close>

lemma Promise_all_fulfilled3:
  "Promise_all (map (\<lambda>(u, first, retry). Inr (g u first retry)) xs)
     = Inr (map (\<lambda>(u, first, retry). g u first retry) xs)"
  by (induction xs) (simp_all add: case_prod_unfold)

lemma Promise_all_fulfilled2:
  "Promise_all (map (\<lambda>(u, a). Inr (g u a)) xs) = Inr (map (\<lambda>(u, a). g u a) xs)"
  by (induction xs) (simp_all add: case_prod_unfold)

text \<open>No endpoint check rejects, so the \<^verbatim>\<open>catch\<close> of the uptime tool is never taken.\<close>

lemma runUptimeCheck_fulfils:
  "runUptimeCheck now endpoints =
     \<lparr>tool = ''uptime'', success = True, timestamp = now,
      data = map (\<lambda>(u, first, retry). fst (checkEndpoint u first retry)) endpoints,
      error = None\<rparr>"
  unfolding runUptimeCheck_def by (simp add: Promise_all_fulfilled3)

lemma runUptimeCheck_v1_fulfils:
  "runUptimeCheck_v1 now endpoints =
     \<lparr>tool = ''uptime'', success = True, timestamp = now,
      data = map (\<lambda>(u, a). fst (checkEndpoint_v1 u a)) endpoints,
      error = None\<rparr>"
  unfolding runUptimeCheck_v1_def by (simp add: Promise_all_fulfilled2)

lemma errMessage_described: "described err \<Longrightarrow> errMessage err \<noteq> []"
  by (cases err) (simp_all add: described_def errMessage_def)

lemma cannotRead_described: "described (cannotRead v k)"
  by (simp add: cannotRead_def described_def)

lemma readProp_described: "readProp v k = Inl err \<Longrightarrow> described err"
  by (auto simp: readProp_def cannotRead_described split: if_splits)

lemma readIndex0_described: "readIndex0 v = Inl err \<Longrightarrow> described err"
  by (auto simp: readIndex0_def cannotRead_described split: if_splits)

lemma latestDeployment_described: "latestDeployment d = Inl err \<Longrightarrow> described err"
  by (auto simp: latestDeployment_def Let_def dest: readIndex0_described
      split: if_splits sum.splits)

lemma toSentryIssue_described: "toSentryIssue x = Inl err \<Longrightarrow> described err"
  by (auto simp: toSentryIssue_def dest: readProp_described split: sum.splits)

lemma tryMap_described:
  "tryMap toSentryIssue xs = Inl err \<Longrightarrow> described err"
  by (induction xs) (auto dest: toSentryIssue_described split: sum.splits)

lemma literal_described: "m \<noteq> [] \<Longrightarrow> described (ErrorObj m)"
  by (simp add: described_def)

lemma recentIssuesOf_described: "recentIssuesOf v = Inl err \<Longrightarrow> described err"
  by (cases v) (auto simp: cannotRead_described literal_described dest: tryMap_described)

lemma lengthOf_described: "lengthOf v = Inl err \<Longrightarrow> described err"
  by (cases v) (auto simp: cannotRead_described)

lemma uptime_invariant: "envelopeInvariant (runUptimeCheck now endpoints)"
  by (simp add: runUptimeCheck_fulfils envelopeInvariant_def)

lemma uptime_v1_invariant: "envelopeInvariant (runUptimeCheck_v1 now endpoints)"
  by (simp add: runUptimeCheck_v1_fulfils envelopeInvariant_def)

lemma email_invariant: "envelopeInvariant (runEmailCheck now now' imapHost imapUser imapPass)"
  by (simp add: runEmailCheck_def envelopeInvariant_def)

lemma sentry_invariant: "envelopeInvariant (runSentryCheck now f1 json1 f2 json2)"
  by (auto simp: runSentryCheck_def envelopeInvariant_def Let_def tryBind_def
      errMessage_described
      dest: recentIssuesOf_described lengthOf_described split: sum.splits)

lemma github_invariant: "envelopeInvariant (runGitHubCheck now)"
  by (simp add: runGitHubCheck_def envelopeInvariant_def)

lemma railway_reason_iff: "reasonIffFailed (runRailwayCheck now parse f)"
  by (simp add: reasonIffFailed_def runRailwayCheck_def split: sum.splits)

lemma railway_v1_invariant: "envelopeInvariant (runRailwayCheck_v1 now f json)"
  by (simp add: runRailwayCheck_v1_def envelopeInvariant_def Let_def)

lemma supabase_reason_iff: "reasonIffFailed (runSupabaseCheck now parseDate nowMs io)"
  by (simp add: reasonIffFailed_def runSupabaseCheck_def split: sum.splits)

lemma fetchRailwayStatus_described:
  "railwayFaultsDescribed f \<Longrightarrow> fetchRailwayStatus parse f = Inl err \<Longrightarrow> described err"
  by (auto simp: railwayFaultsDescribed_def describedFault_def fetchRailwayStatus_def
      dest: readProp_described latestDeployment_described
      split: sum.splits option.splits if_splits)

lemma railway_invariant:
  "railwayFaultsDescribed f \<Longrightarrow> envelopeInvariant (runRailwayCheck now parse f)"
  by (auto simp: envelopeInvariant_def runRailwayCheck_def errMessage_described
      dest: fetchRailwayStatus_described split: sum.splits)

lemma supabaseQueries_fault:
  "supabaseFaultsDescribed io \<Longrightarrow> supabaseQueries parseDate nowMs io = Inl err \<Longrightarrow> described err"
  by (auto simp: supabaseFaultsDescribed_def describedFault_def supabaseQueries_def tryBind_def
      described_def split: sum.splits option.splits)

lemma supabase_invariant:
  "supabaseFaultsDescribed io \<Longrightarrow> envelopeInvariant (runSupabaseCheck now parseDate nowMs io)"
  by (auto simp: envelopeInvariant_def runSupabaseCheck_def errMessage_described
      dest: supabaseQueries_fault split: sum.splits)

lemma railway_reason_passed_through:
  "error (runRailwayCheck now parse (Inl err)) = Some (errMessage err)"
  by (simp add: runRailwayCheck_def fetchRailwayStatus_def)

lemma supabase_reason_passed_through:
  "connectionCheck io = Inl err \<Longrightarrow>
     error (runSupabaseCheck now parseDate nowMs io) = Some (errMessage err)"
  by (simp add: runSupabaseCheck_def supabaseQueries_def tryBind_def)

text \<open>
  C8 (as amended). Every envelope a tool returns has a reason exactly when ok = false; an
  envelope with ok = true carries none. The reason of the uptime, email, issue-tracker and
  GitHub tools is never empty. The deployment and the datastore tool pass the message of
  the fault they caught through unchanged (\<^verbatim>\<open>Unknown error\<close> for a value that is no
  \<^verbatim>\<open>Error\<close>): their reason is not empty when every fault they can catch describes itself,
  and it is the fault's message, empty or not, when the request itself is rejected.
\<close>

theorem envelope_reason_iff_failed:
  "envelopeInvariant (runUptimeCheck now endpoints)
   \<and> envelopeInvariant (runUptimeCheck_v1 now endpoints1)
   \<and> envelopeInvariant (runEmailCheck now now' imapHost imapUser imapPass)
   \<and> envelopeInvariant (runSentryCheck now f1 json1 f2 json2)
   \<and> envelopeInvariant (runGitHubCheck now)
   \<and> envelopeInvariant (runRailwayCheck_v1 now f json)
   \<and> reasonIffFailed (runRailwayCheck now parse f)
   \<and> reasonIffFailed (runSupabaseCheck now parseDate nowMs io)
   \<and> (railwayFaultsDescribed f \<longrightarrow> envelopeInvariant (runRailwayCheck now parse f))
   \<and> (supabaseFaultsDescribed io \<longrightarrow> envelopeInvariant (runSupabaseCheck now parseDate nowMs io))
   \<and> error (runRailwayCheck now parse (Inl err)) = Some (errMessage err)
   \<and> (connectionCheck io = Inl err' \<longrightarrow>
        error (runSupabaseCheck now parseDate nowMs io) = Some (errMessage err'))"
  by (simp add: railway_invariant supabase_invariant uptime_invariant uptime_v1_invariant
      email_invariant sentry_invariant github_invariant railway_v1_invariant
      railway_reason_iff supabase_reason_iff railway_reason_passed_through
      supabase_reason_passed_through)

theorem envelope_reason_iff_failed_witness:
  "railwayFaultsDescribed ex_refused
   \<and> supabaseFaultsDescribed (ex_io_up\<lparr>connectionCheck := Inl NonError\<rparr>)
   \<and> envelopeInvariant ex_uptime_api_down
   \<and> envelopeInvariant ex_email
   \<and> envelopeInvariant ex_railway_failed
   \<and> error ex_railway_failed = Some ''fetch failed''
   \<and> envelopeInvariant
       (runSentryCheck ex_now ex_refused (Inr (JArr [])) (ex_ok ''{}'') (Inr ex_sentry_object))
   \<and> error (runSentryCheck ex_now ex_refused (Inr (JArr [])) (ex_ok ''{}'') (Inr ex_sentry_object))
       = Some ''unresolvedData.slice is not a function''
   \<and> envelopeInvariant
       (runSupabaseCheck ex_now (\<lambda>s. 0) 0 (ex_io_up\<lparr>connectionCheck := Inl NonError\<rparr>))
   \<and> error (runSupabaseCheck ex_now (\<lambda>s. 0) 0 (ex_io_up\<lparr>connectionCheck := Inl NonError\<rparr>))
       = Some ''Unknown error''"
proof -
  have r: "railwayFaultsDescribed ex_refused"
    by (simp add: railwayFaultsDescribed_def ex_refused_def described_def)
  have s: "supabaseFaultsDescribed (ex_io_up\<lparr>connectionCheck := Inl NonError\<rparr>)"
    by (simp add: supabaseFaultsDescribed_def describedFault_def described_def ex_io_up_def)
  have c: "connectionCheck (ex_io_up\<lparr>connectionCheck := Inl NonError\<rparr>) = Inl NonError"
    by simp
  have e1: "error ex_railway_failed = Some ''fetch failed''"
    by (simp add: ex_evals)
  have e3: "error (runSentryCheck ex_now ex_refused (Inr (JArr [])) (ex_ok ''{}'')
                (Inr ex_sentry_object)) = Some ''unresolvedData.slice is not a function''"
    by (simp add: ex_refused_def ex_ok_def ex_sentry_object_def tool_defs)
  from envelope_reason_iff_failed [where now = ex_now
      and endpoints = "[(ex_frontend, (ex_ok ''ok'', 187), (ex_refused, 0)),
                        (ex_api, (ex_refused, 0), (ex_refused, 0))]"
      and ?endpoints1.0 = "[]" and now' = ex_now and imapHost = None and imapUser = None
      and imapPass = None and ?f1.0 = ex_refused and ?json1.0 = "Inr (JArr [])"
      and ?f2.0 = "ex_ok ''{}''" and ?json2.0 = "Inr ex_sentry_object"
      and json = "Inl NonError" and parse = ex_parse and f = ex_refused
      and parseDate = "\<lambda>s. 0" and nowMs = 0
      and io = "ex_io_up\<lparr>connectionCheck := Inl NonError\<rparr>"
      and err = "ErrorObj ''fetch failed''" and err' = NonError]
  show ?thesis using r s c e1 e3
    by (simp add: ex_uptime_api_down_def ex_railway_failed_def ex_email_def errMessage_def)
qed

text \<open>
  The claim as stated fails: the request of the deployment tool is rejected with an
  \<^verbatim>\<open>Error\<close> whose message is empty, and the envelope has ok = false with an empty reason.
\<close>

theorem empty_reason_counterexample:
  "runRailwayCheck ex_now ex_parse ex_no_message =
     \<lparr>tool = ''railway'', success = False, timestamp = ex_now,
      data = \<lparr>railway_status = Unknown, latestDeploymentStatus = Some JNull,
              latestDeploymentAt = Some JNull\<rparr>,
      error = Some []\<rparr>"
  by (simp add: ex_no_message_def tool_defs)

section \<open>The retry of the uptime tool\<close>

text \<open>
  C9. The uptime tool retries an endpoint exactly once, 5000 ms after a first attempt that
  threw and never otherwise. When the retry succeeds the endpoint's entry is the retry's
  data alone and the tool returns ok = true; the endpoint is down exactly when both attempts
  threw.
\<close>

theorem uptime_retry_once:
  "(fst first = Inl err \<longrightarrow> fst retry = Inr res \<longrightarrow>
      checkEndpoint u first retry =
        (\<lparr>url = u, status = (if res_ok res then Healthy else Degraded),
          responseMs = Some (snd retry), statusCode = Some (res_status res)\<rparr>,
         [FetchCall u 20000, Sleep 5000, FetchCall u 20000])
      \<and> runUptimeCheck now [(u, first, retry)] =
          \<lparr>tool = ''uptime'', success = True, timestamp = now,
           data = [\<lparr>url = u, status = (if res_ok res then Healthy else Degraded),
                    responseMs = Some (snd retry), statusCode = Some (res_status res)\<rparr>],
           error = None\<rparr>)
   \<and> (status (fst (checkEndpoint u first retry)) = Down) = (isl (fst first) \<and> isl (fst retry))
   \<and> snd (checkEndpoint u first retry) =
        (if isl (fst first) then [FetchCall u 20000, Sleep 5000, FetchCall u 20000]
         else [FetchCall u 20000])
   \<and> success (runUptimeCheck now endpoints)
   \<and> data (runUptimeCheck now endpoints) =
        map (\<lambda>(u, first, retry). fst (checkEndpoint u first retry)) endpoints"
proof -
  have a: "checkEndpoint u first retry =
        (\<lparr>url = u, status = (if res_ok res then Healthy else Degraded),
          responseMs = Some (snd retry), statusCode = Some (res_status res)\<rparr>,
         [FetchCall u 20000, Sleep 5000, FetchCall u 20000])"
    if "fst first = Inl err" "fst retry = Inr res"
    using that by (simp add: checkEndpoint_def pingEndpoint_def)
  have b: "(status (fst (checkEndpoint u first retry)) = Down) = (isl (fst first) \<and> isl (fst retry))"
    by (cases "fst first"; cases "fst retry") (simp_all add: checkEndpoint_def pingEndpoint_def)
  have c: "snd (checkEndpoint u first retry) =
        (if isl (fst first) then [FetchCall u 20000, Sleep 5000, FetchCall u 20000]
         else [FetchCall u 20000])"
    by (cases "fst first"; cases "fst retry") (simp_all add: checkEndpoint_def pingEndpoint_def)
  show ?thesis
    using a b c by (simp add: runUptimeCheck_fulfils)
qed

theorem uptime_retry_once_witness:
  "checkEndpoint ex_api (ex_refused, 20003) (ex_ok ''ok'', 412) =
     (\<lparr>url = ex_api, status = Healthy, responseMs = Some 412, statusCode = Some 200\<rparr>,
      [FetchCall ex_api 20000, Sleep 5000, FetchCall ex_api 20000])
   \<and> runUptimeCheck ex_now [(ex_api, (ex_refused, 20003), (ex_ok ''ok'', 412))] =
       \<lparr>tool = ''uptime'', success = True, timestamp = ex_now,
        data = [\<lparr>url = ex_api, status = Healthy, responseMs = Some 412, statusCode = Some 200\<rparr>],
        error = None\<rparr>"
  using uptime_retry_once [of "(ex_refused, 20003)" "ErrorObj ''fetch failed''" "(ex_ok ''ok'', 412)"
      "\<lparr>res_ok = True, res_status = 200, res_statusText = ''OK'', res_text = Inr ''ok''\<rparr>"
      ex_api ex_now "[]"]
  by (simp add: ex_refused_def ex_ok_def)

text \<open>The earlier copy of the tool makes one attempt and reports down when it throws.\<close>

lemma checkEndpoint_v1_no_retry:
  "isl (fst a) \<Longrightarrow> checkEndpoint_v1 u a =
     (\<lparr>url = u, status = Down, responseMs = None, statusCode = None\<rparr>, [FetchCall u 10000])"
  by (cases "fst a") (simp_all add: checkEndpoint_v1_def)

section \<open>Faults and the two axes of an envelope\<close>








lemma resolveStatus_determined: "resolveStatus v \<noteq> Unknown"
  by (simp add: resolveStatus_def)













text \<open>
  The earlier copy of the deployment tool answers every fault of its request with ok = true
  and payload status \<open>down\<close>.
\<close>

lemma railway_v1_fault_is_down:
  "isl f \<Longrightarrow> runRailwayCheck_v1 now f json =
     \<lparr>tool = ''railway'', success = True, timestamp = now,
      data = \<lparr>railway_status = Down, latestDeploymentStatus = Some JNull,
              latestDeploymentAt = Some JNull\<rparr>,
      error = None\<rparr>"
  by (cases f) (simp_all add: runRailwayCheck_v1_def fetchRailwayStatus_v1_def)

end
